theory Spec2Isabelle
  imports Complex_Main
begin

section \<open>Go's float64\<close>

text \<open>
  A \<open>float64\<close> is a finite number, one of the two infinities, or NaN. The special values
  follow IEEE 754 as Go implements it: division by zero gives an infinity or NaN, NaN
  propagates, and every comparison with NaN is false. Signed zeros are not distinguished:
  every divisor of the code below that can be zero (\<open>math.Abs\<close> of a value, the
  initial peak \<open>0.0\<close>, \<open>-1 + 1\<close>) is the positive zero.

  The operations \<open>fadd\<close>, \<open>fsub\<close>, \<open>fmul\<close>, \<open>fdiv\<close> and \<open>fsqrt\<close> are exact on finite
  values. The operations \<open>fadd64\<close>, \<open>fsub64\<close>, \<open>fmul64\<close>, \<open>fdiv64\<close> and \<open>fsqrt64\<close> further
  down round the exact result to the nearest binary64, ties to even, as the hardware
  does; \<open>calculateSharpeRatio\<close>, whose test \<open>stdDev == 0\<close> depends on the rounding, is
  written with them.
\<close>

datatype f64 = Fin real | PInf | NInf | NaN

fun fneg :: "f64 \<Rightarrow> f64" where
  "fneg (Fin x) = Fin (- x)"
| "fneg PInf = NInf"
| "fneg NInf = PInf"
| "fneg NaN = NaN"

fun fadd :: "f64 \<Rightarrow> f64 \<Rightarrow> f64" where
  "fadd NaN b = NaN"
| "fadd a NaN = NaN"
| "fadd (Fin x) (Fin y) = Fin (x + y)"
| "fadd (Fin x) b = b"
| "fadd a (Fin y) = a"
| "fadd a b = (if a = b then a else NaN)"

definition fsub :: "f64 \<Rightarrow> f64 \<Rightarrow> f64" where
  "fsub a b = fadd a (fneg b)"

fun fmul :: "f64 \<Rightarrow> f64 \<Rightarrow> f64" where
  "fmul NaN b = NaN"
| "fmul a NaN = NaN"
| "fmul (Fin x) (Fin y) = Fin (x * y)"
| "fmul (Fin x) b = (if x = 0 then NaN else if (x < 0) = (b = NInf) then PInf else NInf)"
| "fmul a (Fin y) = (if y = 0 then NaN else if (y < 0) = (a = NInf) then PInf else NInf)"
| "fmul a b = (if a = b then PInf else NInf)"

fun fdiv :: "f64 \<Rightarrow> f64 \<Rightarrow> f64" where
  "fdiv NaN b = NaN"
| "fdiv a NaN = NaN"
| "fdiv (Fin x) (Fin y) =
     (if y \<noteq> 0 then Fin (x / y)
      else if 0 < x then PInf else if x < 0 then NInf else NaN)"
| "fdiv (Fin x) b = Fin 0"
| "fdiv a (Fin y) = (if (y < 0) = (a = NInf) then PInf else NInf)"
| "fdiv a b = NaN"

fun flt :: "f64 \<Rightarrow> f64 \<Rightarrow> bool" where
  "flt NaN b = False"
| "flt a NaN = False"
| "flt (Fin x) (Fin y) = (x < y)"
| "flt NInf b = (b \<noteq> NInf)"
| "flt a PInf = (a \<noteq> PInf)"
| "flt a b = False"

definition fgt :: "f64 \<Rightarrow> f64 \<Rightarrow> bool" where
  "fgt a b = flt b a"

definition feq :: "f64 \<Rightarrow> f64 \<Rightarrow> bool" where
  "feq a b = (a \<noteq> NaN \<and> a = b)"

definition fle :: "f64 \<Rightarrow> f64 \<Rightarrow> bool" where
  "fle a b = (flt a b \<or> feq a b)"

text \<open>\<open>math.Abs\<close>, \<open>math.Min\<close> (either argument \<open>-Inf\<close> gives \<open>-Inf\<close>, otherwise
  either argument NaN gives NaN) and \<open>math.Sqrt\<close>.\<close>

fun fabs :: "f64 \<Rightarrow> f64" where
  "fabs (Fin x) = Fin \<bar>x\<bar>"
| "fabs PInf = PInf"
| "fabs NInf = PInf"
| "fabs NaN = NaN"

definition fmin :: "f64 \<Rightarrow> f64 \<Rightarrow> f64" where
  "fmin x y =
     (if x = NInf \<or> y = NInf then NInf
      else if x = NaN \<or> y = NaN then NaN
      else if flt x y then x else y)"

fun fsqrt :: "f64 \<Rightarrow> f64" where
  "fsqrt (Fin x) = (if x < 0 then NaN else Fin (sqrt x))"
| "fsqrt PInf = PInf"
| "fsqrt NInf = NaN"
| "fsqrt NaN = NaN"

text \<open>The conversion \<open>float64(n)\<close> of an \<open>int\<close>.\<close>

definition float64 :: "int \<Rightarrow> f64" where
  "float64 n = Fin (of_int n)"

definition isFinite :: "f64 \<Rightarrow> bool" where
  "isFinite a = (case a of Fin x \<Rightarrow> True | _ \<Rightarrow> False)"

text \<open>
  Rounding to binary64. \<open>pow2 e\<close> is \<open>2\<^sup>e\<close>. A number other than 0 of binary exponent \<open>e\<close>
  (at least -1022, the exponent of the subnormal numbers) is rounded to the nearest
  multiple of \<open>2\<^bsup>e - 52\<^esup>\<close>, a tie going to the even multiple; a result of magnitude
  \<open>2\<^sup>1\<^sup>0\<^sup>2\<^sup>4\<close> or more is an infinity.
\<close>

definition pow2 :: "int \<Rightarrow> real" where
  "pow2 e = (if 0 \<le> e then 2 ^ nat e else 1 / 2 ^ nat (- e))"

definition roundEven :: "real \<Rightarrow> int" where
  "roundEven y =
     (let f = \<lfloor>y\<rfloor>
      in if y - of_int f < 1/2 then f
         else if 1/2 < y - of_int f then f + 1
         else if even f then f else f + 1)"

definition exponent :: "real \<Rightarrow> int" where
  "exponent x = max \<lfloor>log 2 \<bar>x\<bar>\<rfloor> (- 1022)"

definition round64 :: "real \<Rightarrow> f64" where
  "round64 x =
     (if x = 0 then Fin 0
      else
        let u = pow2 (exponent x - 52);
            r = of_int (roundEven (x / u)) * u
        in if pow2 1024 \<le> \<bar>r\<bar> then (if 0 < x then PInf else NInf) else Fin r)"

fun rnd :: "f64 \<Rightarrow> f64" where
  "rnd (Fin x) = round64 x"
| "rnd PInf = PInf"
| "rnd NInf = NInf"
| "rnd NaN = NaN"

definition fadd64 :: "f64 \<Rightarrow> f64 \<Rightarrow> f64" where
  "fadd64 a b = rnd (fadd a b)"

definition fsub64 :: "f64 \<Rightarrow> f64 \<Rightarrow> f64" where
  "fsub64 a b = rnd (fsub a b)"

definition fmul64 :: "f64 \<Rightarrow> f64 \<Rightarrow> f64" where
  "fmul64 a b = rnd (fmul a b)"

definition fdiv64 :: "f64 \<Rightarrow> f64 \<Rightarrow> f64" where
  "fdiv64 a b = rnd (fdiv a b)"

definition fsqrt64 :: "f64 \<Rightarrow> f64" where
  "fsqrt64 a = rnd (fsqrt a)"


section \<open>Trade candidates and the risk manager\<close>

record TradeRecommendation =
  Ticker :: string
  Strategy :: string
  Legs :: string
  Thesis :: string
  POP :: f64
  MaxLoss :: f64
  MaxProfit :: f64
  Score :: f64

record RiskManager =
  maxPortfolioRiskPercent :: f64
  maxPositionSizePercent :: f64
  maxDailyLossPercent :: f64
  minProbabilityOfProfit :: f64
  maxConcentrationPercent :: f64
  requireManualApproval :: bool

text \<open>
  A violation is the result of one \<open>fmt.Sprintf\<close> call. It is kept as the format it was
  built from together with the arguments, in the order the code passes them; the rendering
  of the arguments with \<open>%.2f\<close> is not modelled.
\<close>

datatype violation =
    PositionRiskExceeds f64 f64
  | POPBelowMinimum f64 f64
  | RiskRewardBelowMinimum f64
  | TotalPortfolioRiskExceeds f64 f64
  | ConcentrationExceeds string f64 f64

record TradeValidation =
  IsValid :: bool
  Violations :: "violation list"
  RiskScore :: f64
  RequiresApproval :: bool

text \<open>The dynamic values of a \<open>map[string]interface{}\<close>: only whether a value is a
  \<open>float64\<close> matters to the type assertions below.\<close>

datatype iface = IFloat64 f64 | IString string | IBool bool | INil | IOther

type_synonym portfolio = "string \<Rightarrow> iface option"

definition NewRiskManager :: RiskManager where
  "NewRiskManager =
     \<lparr> maxPortfolioRiskPercent = Fin 2,
       maxPositionSizePercent = Fin (1/2),
       maxDailyLossPercent = Fin 1,
       minProbabilityOfProfit = Fin (65/100),
       maxConcentrationPercent = Fin 10,
       requireManualApproval = True \<rparr>"

text \<open>The block both validations start with: \<open>portfolio["total_value"].(float64)\<close>,
  replaced by 100000 when the assertion fails or the value is \<open>\<le> 0\<close>.\<close>

definition portfolioValueOf :: "portfolio \<Rightarrow> f64" where
  "portfolioValueOf portfolio =
     (case portfolio ''total_value'' of
        Some (IFloat64 v) \<Rightarrow> if fle v (Fin 0) then Fin 100000 else v
      | _ \<Rightarrow> Fin 100000)"

definition strategyRiskMap :: "(string \<times> f64) list" where
  "strategyRiskMap =
     [(''covered call'', Fin 5),
      (''cash secured put'', Fin 7),
      (''credit spread'', Fin 10),
      (''iron condor'', Fin 12),
      (''butterfly'', Fin 15),
      (''naked option'', Fin 20)]"

definition getStrategyRiskScore :: "string \<Rightarrow> f64" where
  "getStrategyRiskScore strategy =
     (case map_of strategyRiskMap strategy of Some score \<Rightarrow> score | None \<Rightarrow> Fin 15)"

definition calculateRiskScore :: "RiskManager \<Rightarrow> TradeRecommendation \<Rightarrow> f64 \<Rightarrow> f64" where
  "calculateRiskScore rm trade positionRiskPercent =
     (let score = Fin 0;
          popScore = fmul (fsub (Fin 1) (POP trade)) (Fin 30);
          score = fadd score popScore;
          sizeScore = fmul (fdiv positionRiskPercent (maxPositionSizePercent rm)) (Fin 30);
          score = fadd score (fmin sizeScore (Fin 30));
          rrRatio = fdiv (MaxProfit trade) (fabs (MaxLoss trade));
          rrScore = fmul (fdiv (Fin 1) (fadd rrRatio (Fin 1))) (Fin 20);
          score = fadd score rrScore;
          strategyScore = getStrategyRiskScore (Strategy trade);
          score = fadd score strategyScore
      in fmin score (Fin 100))"

definition addViolation :: "violation \<Rightarrow> TradeValidation \<Rightarrow> TradeValidation" where
  "addViolation msg validation =
     validation\<lparr> IsValid := False, Violations := Violations validation @ [msg] \<rparr>"

definition ValidateTrade :: "RiskManager \<Rightarrow> TradeRecommendation \<Rightarrow> portfolio \<Rightarrow> TradeValidation" where
  "ValidateTrade rm trade portfolio =
     (let validation = \<lparr> IsValid = True, Violations = [], RiskScore = Fin 0,
                          RequiresApproval = requireManualApproval rm \<rparr>;
          portfolioValue = portfolioValueOf portfolio;
          positionRisk = fabs (MaxLoss trade);
          positionRiskPercent = fmul (fdiv positionRisk portfolioValue) (Fin 100);
          validation =
            (if fgt positionRiskPercent (maxPositionSizePercent rm)
             then addViolation
                    (PositionRiskExceeds positionRiskPercent (maxPositionSizePercent rm))
                    validation
             else validation);
          validation =
            (if flt (POP trade) (minProbabilityOfProfit rm)
             then addViolation
                    (POPBelowMinimum (fmul (POP trade) (Fin 100))
                       (fmul (minProbabilityOfProfit rm) (Fin 100)))
                    validation
             else validation);
          riskRewardRatio = fdiv (MaxProfit trade) (fabs (MaxLoss trade));
          validation =
            (if flt riskRewardRatio (Fin (33/100))
             then addViolation (RiskRewardBelowMinimum riskRewardRatio) validation
             else validation)
      in validation\<lparr> RiskScore := calculateRiskScore rm trade positionRiskPercent \<rparr>)"

text \<open>
  \<open>ValidatePortfolio\<close>. The map \<open>symbolRisk\<close> is an association list in the order the
  tickers are first met; \<open>symbolRisk[t] += risk\<close> starts a missing ticker from 0. Go ranges
  over a map in an unspecified order, of which the list order is one.
\<close>

fun addSymbolRisk :: "(string \<times> f64) list \<Rightarrow> string \<Rightarrow> f64 \<Rightarrow> (string \<times> f64) list" where
  "addSymbolRisk [] t risk = [(t, fadd (Fin 0) risk)]"
| "addSymbolRisk ((t', v) # m) t risk =
     (if t' = t then (t', fadd v risk) # m else (t', v) # addSymbolRisk m t risk)"

fun accumulateRisk ::
  "TradeRecommendation list \<Rightarrow> f64 \<times> (string \<times> f64) list \<Rightarrow> f64 \<times> (string \<times> f64) list" where
  "accumulateRisk [] acc = acc"
| "accumulateRisk (trade # trades) (totalRisk, symbolRisk) =
     (let risk = fabs (MaxLoss trade)
      in accumulateRisk trades (fadd totalRisk risk, addSymbolRisk symbolRisk (Ticker trade) risk))"

fun checkConcentration ::
  "RiskManager \<Rightarrow> f64 \<Rightarrow> (string \<times> f64) list \<Rightarrow> TradeValidation \<Rightarrow> TradeValidation" where
  "checkConcentration rm portfolioValue [] validation = validation"
| "checkConcentration rm portfolioValue ((symbol, risk) # rest) validation =
     (let concentrationPercent = fmul (fdiv risk portfolioValue) (Fin 100)
      in checkConcentration rm portfolioValue rest
           (if fgt concentrationPercent (maxConcentrationPercent rm)
            then addViolation
                   (ConcentrationExceeds symbol concentrationPercent (maxConcentrationPercent rm))
                   validation
            else validation))"

definition ValidatePortfolio ::
  "RiskManager \<Rightarrow> TradeRecommendation list \<Rightarrow> portfolio \<Rightarrow> TradeValidation" where
  "ValidatePortfolio rm trades portfolio =
     (let validation = \<lparr> IsValid = True, Violations = [], RiskScore = Fin 0,
                          RequiresApproval = False \<rparr>;
          portfolioValue = portfolioValueOf portfolio;
          (totalRisk, symbolRisk) = accumulateRisk trades (Fin 0, []);
          totalRiskPercent = fmul (fdiv totalRisk portfolioValue) (Fin 100);
          validation =
            (if fgt totalRiskPercent (maxPortfolioRiskPercent rm)
             then addViolation
                    (TotalPortfolioRiskExceeds totalRiskPercent (maxPortfolioRiskPercent rm))
                    validation
             else validation)
      in checkConcentration rm portfolioValue symbolRisk validation)"


section \<open>The performance tracker\<close>

text \<open>An instant is its number of nanoseconds since the Unix epoch; \<open>Unix\<close> and
  \<open>Nanosecond\<close> are \<open>time.Time\<close>'s accessors.\<close>

type_synonym time = int

definition Unix :: "time \<Rightarrow> int" where
  "Unix t = t div 1000000000"

definition Nanosecond :: "time \<Rightarrow> int" where
  "Nanosecond t = t mod 1000000000"

record RecommendationRecord =
  ID :: string
  Timestamp :: time
  Recommendation :: TradeRecommendation
  Executed :: bool
  ExecutionTime :: "time option"
  ExitTime :: "time option"
  ActualProfit :: "f64 option"
  Status :: string

text \<open>
  The tracker is modelled with the partition file its \<open>currentFile\<close> path names: absent,
  holding the JSON of a list of records (kept as the list that decoding it gives),
  unreadable, or holding something that does not decode. \<open>writable\<close> says whether
  \<open>os.WriteFile\<close> succeeds.
\<close>

datatype partition = NotExist | Content "RecommendationRecord list" | ReadFails | Malformed

record PerformanceTracker =
  currentFile :: partition
  writable :: bool

datatype error =
    ReadError | UnmarshalError | MarshalError | WriteError | NoRecommendationsFound

text \<open>The verb \<open>%d\<close> of \<open>fmt.Sprintf\<close>.\<close>

fun formatNat :: "nat \<Rightarrow> string" where
  "formatNat n =
     (if n < 10 then [''0123456789'' ! n]
      else formatNat (n div 10) @ [''0123456789'' ! (n mod 10)])"

declare formatNat.simps [simp del]

definition formatInt :: "int \<Rightarrow> string" where
  "formatInt i = (if i < 0 then ''-'' @ formatNat (nat (- i)) else formatNat (nat i))"

text \<open>\<open>generateRecordID\<close> reads the clock twice; the two readings are its arguments.\<close>

definition generateRecordID :: "time \<Rightarrow> time \<Rightarrow> string" where
  "generateRecordID now1 now2 =
     ''rec_'' @ formatInt (Unix now1) @ ''_'' @ formatInt (Nanosecond now2)"

definition loadRecords :: "PerformanceTracker \<Rightarrow> error + RecommendationRecord list" where
  "loadRecords pt =
     (case currentFile pt of
        NotExist \<Rightarrow> Inr []
      | Content records \<Rightarrow> Inr records
      | ReadFails \<Rightarrow> Inl ReadError
      | Malformed \<Rightarrow> Inl UnmarshalError)"

text \<open>
  What \<open>json.MarshalIndent\<close> does to a record. A float that is not finite is refused. A
  string is written as valid UTF-8: the encoder walks it with \<open>utf8.DecodeRune\<close> and writes
  U+FFFD (the bytes EF BF BD) for each byte that does not start a valid encoding, so that
  is what \<open>json.Unmarshal\<close> reads back. \<open>runeWidth\<close> is the number of bytes of the valid
  encoding a string starts with, 0 when it starts with none.
\<close>

definition inRange :: "nat \<Rightarrow> nat \<Rightarrow> char \<Rightarrow> bool" where
  "inRange lo hi c = (lo \<le> of_char c \<and> of_char c \<le> hi)"

fun runeWidth :: "string \<Rightarrow> nat" where
  "runeWidth [] = 0"
| "runeWidth (c0 # s) =
     (let b0 = of_char c0 :: nat
      in if b0 < 128 then 1
         else if b0 < 194 \<or> 244 < b0 then 0
         else
           let sz = (if b0 < 224 then 2 else if b0 < 240 then 3 else 4 :: nat);
               lo = (if b0 = 224 then 160 else if b0 = 240 then 144 else 128);
               hi = (if b0 = 237 then 159 else if b0 = 244 then 143 else 191)
           in if length s < sz - 1 then 0
              else if \<not> inRange lo hi (s ! 0) then 0
              else if sz = 2 then 2
              else if \<not> inRange 128 191 (s ! 1) then 0
              else if sz = 3 then 3
              else if \<not> inRange 128 191 (s ! 2) then 0
              else 4)"

function coerceUTF8 :: "string \<Rightarrow> string" where
  "coerceUTF8 s =
     (if s = [] then []
      else if runeWidth s = 0 then [CHR 0xEF, CHR 0xBF, CHR 0xBD] @ coerceUTF8 (tl s)
      else take (runeWidth s) s @ coerceUTF8 (drop (runeWidth s) s))"
  by pat_completeness auto
termination
  by (relation "measure length") auto

function validUTF8 :: "string \<Rightarrow> bool" where
  "validUTF8 s =
     (if s = [] then True
      else if runeWidth s = 0 then False
      else validUTF8 (drop (runeWidth s) s))"
  by pat_completeness auto
termination
  by (relation "measure length") auto

declare coerceUTF8.simps [simp del] validUTF8.simps [simp del]

definition jsonRecord :: "RecommendationRecord \<Rightarrow> RecommendationRecord" where
  "jsonRecord r =
     r\<lparr> ID := coerceUTF8 (ID r),
        Recommendation :=
          (Recommendation r)\<lparr> Ticker := coerceUTF8 (Ticker (Recommendation r)),
                                 Strategy := coerceUTF8 (Strategy (Recommendation r)),
                                 Legs := coerceUTF8 (Legs (Recommendation r)),
                                 Thesis := coerceUTF8 (Thesis (Recommendation r)) \<rparr>,
        Status := coerceUTF8 (Status r) \<rparr>"


definition encodable :: "RecommendationRecord \<Rightarrow> bool" where
  "encodable r =
     (isFinite (POP (Recommendation r)) \<and> isFinite (MaxLoss (Recommendation r)) \<and>
      isFinite (MaxProfit (Recommendation r)) \<and> isFinite (Score (Recommendation r)) \<and>
      (case ActualProfit r of None \<Rightarrow> True | Some p \<Rightarrow> isFinite p))"

definition saveRecords ::
  "PerformanceTracker \<Rightarrow> RecommendationRecord list \<Rightarrow> error + PerformanceTracker" where
  "saveRecords pt records =
     (if \<not> list_all encodable records then Inl MarshalError
      else if \<not> writable pt then Inl WriteError
      else Inr (pt\<lparr> currentFile := Content (map jsonRecord records) \<rparr>))"

text \<open>\<open>RecordRecommendation\<close>: \<open>now1\<close> and \<open>now2\<close> are the clock readings of
  \<open>generateRecordID\<close>, \<open>now3\<close> the one of the timestamp.\<close>

definition RecordRecommendation ::
  "TradeRecommendation \<Rightarrow> time \<Rightarrow> time \<Rightarrow> time \<Rightarrow> PerformanceTracker
     \<Rightarrow> error + (RecommendationRecord \<times> PerformanceTracker)" where
  "RecordRecommendation rec now1 now2 now3 pt =
     (let record = \<lparr> ID = generateRecordID now1 now2, Timestamp = now3, Recommendation = rec,
                      Executed = False, ExecutionTime = None, ExitTime = None,
                      ActualProfit = None, Status = ''pending'' \<rparr>
      in case loadRecords pt of
           Inl err \<Rightarrow> Inl err
         | Inr records \<Rightarrow>
             (let records = records @ [record]
              in case saveRecords pt records of
                   Inl err \<Rightarrow> Inl err
                 | Inr pt' \<Rightarrow> Inr (record, pt')))"

text \<open>The loop of \<open>UpdateExecution\<close>: the first record with the id is updated, then
  \<open>break\<close>.\<close>

fun markExecution ::
  "RecommendationRecord list \<Rightarrow> string \<Rightarrow> bool \<Rightarrow> time \<Rightarrow> RecommendationRecord list" where
  "markExecution [] recordID executed now = []"
| "markExecution (rec # records) recordID executed now =
     (if ID rec = recordID
      then (if executed
            then rec\<lparr> Executed := executed, ExecutionTime := Some now, Status := ''executed'' \<rparr>
            else rec\<lparr> Executed := executed \<rparr>) # records
      else rec # markExecution records recordID executed now)"

definition UpdateExecution ::
  "string \<Rightarrow> bool \<Rightarrow> time \<Rightarrow> PerformanceTracker \<Rightarrow> error + PerformanceTracker" where
  "UpdateExecution recordID executed now pt =
     (case loadRecords pt of
        Inl err \<Rightarrow> Inl err
      | Inr records \<Rightarrow> saveRecords pt (markExecution records recordID executed now))"

text \<open>The loop of \<open>UpdateTradeResult\<close>.\<close>

fun markResult ::
  "RecommendationRecord list \<Rightarrow> string \<Rightarrow> f64 \<Rightarrow> time \<Rightarrow> RecommendationRecord list" where
  "markResult [] recordID profit now = []"
| "markResult (rec # records) recordID profit now =
     (if ID rec = recordID
      then rec\<lparr> ExitTime := Some now, ActualProfit := Some profit, Status := ''closed'' \<rparr>
             # records
      else rec # markResult records recordID profit now)"

definition UpdateTradeResult ::
  "string \<Rightarrow> f64 \<Rightarrow> time \<Rightarrow> PerformanceTracker \<Rightarrow> error + PerformanceTracker" where
  "UpdateTradeResult recordID profit now pt =
     (case loadRecords pt of
        Inl err \<Rightarrow> Inl err
      | Inr records \<Rightarrow> saveRecords pt (markResult records recordID profit now))"

definition GetRecommendationHistory ::
  "int \<Rightarrow> PerformanceTracker \<Rightarrow> error + RecommendationRecord list" where
  "GetRecommendationHistory limit pt =
     (case loadRecords pt of
        Inl err \<Rightarrow> Inl err
      | Inr records \<Rightarrow>
          if 0 < limit \<and> limit < int (length records)
          then Inr (drop (nat (int (length records) - limit)) records)
          else Inr records)"

text \<open>A candidate and a tracker to evaluate the operations on.\<close>

definition exampleCandidate :: TradeRecommendation where
  "exampleCandidate =
     \<lparr> Ticker = ''SPY'', Strategy = ''credit spread'', Legs = ''Sell 440P/Buy 435P'',
       Thesis = ''strong support'', POP = Fin (72/100), MaxLoss = Fin (- 100),
       MaxProfit = Fin 50, Score = Fin (85/100) \<rparr>"

text \<open>A candidate whose ticker is not valid UTF-8: the bytes 53 50 FF.\<close>

definition invalidCandidate :: TradeRecommendation where
  "invalidCandidate = exampleCandidate\<lparr> Ticker := [CHR 0x53, CHR 0x50, CHR 0xFF] \<rparr>"

definition emptyTracker :: PerformanceTracker where
  "emptyTracker = \<lparr> currentFile = NotExist, writable = True \<rparr>"

definition exampleRecord :: RecommendationRecord where
  "exampleRecord =
     \<lparr> ID = ''rec_1700000000_5'', Timestamp = 1700000000000000007,
       Recommendation = exampleCandidate, Executed = False, ExecutionTime = None,
       ExitTime = None, ActualProfit = None, Status = ''pending'' \<rparr>"

definition closedRecord :: RecommendationRecord where
  "closedRecord =
     exampleRecord\<lparr> ExitTime := Some 1700000000000000009, ActualProfit := Some (Fin 50),
       Status := ''closed'' \<rparr>"

definition exampleBasket :: "nat \<Rightarrow> TradeRecommendation list" where
  "exampleBasket n = replicate n exampleCandidate"

definition examplePortfolio :: portfolio where
  "examplePortfolio = [''total_value'' \<mapsto> IFloat64 (Fin 10000)]"

section \<open>Performance metrics\<close>

text \<open>
  \<open>StrategyMetrics\<close> has the fields \<open>Count\<close>, \<open>WinRate\<close>, \<open>AvgReturn\<close> and
  \<open>TotalReturn\<close>; the two it shares with \<open>PerformanceMetrics\<close> carry the prefix
  \<open>Strategy\<close> here. The map \<open>ByStrategy\<close> is an association list in the order the
  strategies are first met. The map \<open>ByTimeframe\<close>, which \<open>addTimeframeMetrics\<close> fills from
  the clock, is not part of the model.
\<close>

record StrategyMetrics =
  Count :: int
  StrategyWinRate :: f64
  AvgReturn :: f64
  StrategyTotalReturn :: f64

record PerformanceMetrics =
  TotalRecommendations :: int
  ExecutedTrades :: int
  WinningTrades :: int
  LosingTrades :: int
  WinRate :: f64
  AverageReturn :: f64
  TotalReturn :: f64
  SharpeRatio :: f64
  MaxDrawdown :: f64
  ByStrategy :: "(string \<times> StrategyMetrics) list"

text \<open>
  \<open>calculateSharpeRatio\<close>, every operation rounded on its own (no fused multiply-add).
  The constant \<open>0.05 / 252\<close> is computed exactly by the compiler and rounded once;
  \<open>float64(len(returns))\<close> rounds the length.
\<close>

fun sumReturns :: "f64 list \<Rightarrow> f64 \<Rightarrow> f64" where
  "sumReturns [] acc = acc"
| "sumReturns (r # returns) acc = sumReturns returns (fadd64 acc r)"

fun sumSquares :: "f64 list \<Rightarrow> f64 \<Rightarrow> f64 \<Rightarrow> f64" where
  "sumSquares [] avgReturn variance = variance"
| "sumSquares (r # returns) avgReturn variance =
     sumSquares returns avgReturn
       (fadd64 variance (fmul64 (fsub64 r avgReturn) (fsub64 r avgReturn)))"

definition calculateSharpeRatio :: "f64 list \<Rightarrow> f64" where
  "calculateSharpeRatio returns =
     (if length returns < 2 then Fin 0
      else
        let sumOfReturns = sumReturns returns (Fin 0);
            avgReturn = fdiv64 sumOfReturns (rnd (float64 (int (length returns))));
            variance = sumSquares returns avgReturn (Fin 0);
            stdDev = fsqrt64 (fdiv64 variance (rnd (float64 (int (length returns) - 1))))
        in if feq stdDev (Fin 0) then Fin 0
           else
             let riskFreeRate = rnd (Fin ((5/100) / 252))
             in fmul64 (fdiv64 (fsub64 avgReturn riskFreeRate) stdDev) (fsqrt64 (Fin 252)))"

text \<open>The loop of \<open>calculateMaxDrawdown\<close> on the triple \<open>(cumulative, peak, maxDrawdown)\<close>.\<close>

definition drawdownStep :: "f64 \<times> f64 \<times> f64 \<Rightarrow> f64 \<Rightarrow> f64 \<times> f64 \<times> f64" where
  "drawdownStep s r =
     (case s of (cumulative, peak, maxDrawdown) \<Rightarrow>
        let cumulative = fadd cumulative r;
            peak = (if fgt cumulative peak then cumulative else peak);
            drawdown = fdiv (fsub peak cumulative) peak;
            maxDrawdown = (if fgt drawdown maxDrawdown then drawdown else maxDrawdown)
        in (cumulative, peak, maxDrawdown))"

fun drawdownLoop :: "f64 list \<Rightarrow> f64 \<times> f64 \<times> f64 \<Rightarrow> f64 \<times> f64 \<times> f64" where
  "drawdownLoop [] s = s"
| "drawdownLoop (r # returns) s = drawdownLoop returns (drawdownStep s r)"

definition calculateMaxDrawdown :: "f64 list \<Rightarrow> f64" where
  "calculateMaxDrawdown returns =
     (if length returns = 0 then Fin 0
      else case drawdownLoop returns (Fin 0, Fin 0, Fin 0) of
             (cumulative, peak, maxDrawdown) \<Rightarrow> fmul maxDrawdown (Fin 100))"

text \<open>\<open>metrics.ByStrategy[strategy]\<close>: created empty when missing, then \<open>Count++\<close> and
  \<open>TotalReturn += profit\<close>.\<close>

fun trackStrategy ::
  "(string \<times> StrategyMetrics) list \<Rightarrow> string \<Rightarrow> f64 \<Rightarrow> (string \<times> StrategyMetrics) list" where
  "trackStrategy [] strategy profit =
     [(strategy, \<lparr> Count = 1, StrategyWinRate = Fin 0, AvgReturn = Fin 0,
                    StrategyTotalReturn = fadd (Fin 0) profit \<rparr>)]"
| "trackStrategy ((s, sm) # m) strategy profit =
     (if s = strategy
      then (s, sm\<lparr> Count := Count sm + 1,
                    StrategyTotalReturn := fadd (StrategyTotalReturn sm) profit \<rparr>) # m
      else (s, sm) # trackStrategy m strategy profit)"

text \<open>The first loop of \<open>GetMetrics\<close>, on the metrics and the slice \<open>returns\<close>.\<close>

definition countRecord ::
  "PerformanceMetrics \<times> f64 list \<Rightarrow> RecommendationRecord \<Rightarrow> PerformanceMetrics \<times> f64 list" where
  "countRecord s rec =
     (case s of (metrics, returns) \<Rightarrow>
        if Executed rec
        then
          let metrics = metrics\<lparr> ExecutedTrades := ExecutedTrades metrics + 1 \<rparr>
          in case ActualProfit rec of
               None \<Rightarrow> (metrics, returns)
             | Some profit \<Rightarrow>
                 let metrics =
                       (if fgt profit (Fin 0)
                        then metrics\<lparr> WinningTrades := WinningTrades metrics + 1 \<rparr>
                        else if flt profit (Fin 0)
                        then metrics\<lparr> LosingTrades := LosingTrades metrics + 1 \<rparr>
                        else metrics);
                     metrics = metrics\<lparr> TotalReturn := fadd (TotalReturn metrics) profit \<rparr>;
                     returns = returns @ [profit];
                     metrics = metrics\<lparr> ByStrategy :=
                       trackStrategy (ByStrategy metrics) (Strategy (Recommendation rec)) profit \<rparr>
                 in (metrics, returns)
        else (metrics, returns))"

fun countRecords ::
  "RecommendationRecord list \<Rightarrow> PerformanceMetrics \<times> f64 list \<Rightarrow> PerformanceMetrics \<times> f64 list" where
  "countRecords [] s = s"
| "countRecords (rec # records) s = countRecords records (countRecord s rec)"

text \<open>The loop over \<open>ByStrategy\<close> that fills \<open>AvgReturn\<close> and \<open>WinRate\<close>.\<close>

definition strategyWins :: "RecommendationRecord list \<Rightarrow> string \<Rightarrow> int \<times> int" where
  "strategyWins records strategy =
     (let counted = filter (\<lambda>rec. Strategy (Recommendation rec) = strategy \<and> Executed rec \<and>
                              ActualProfit rec \<noteq> None) records
      in (int (length (filter (\<lambda>rec. case ActualProfit rec of
                                        Some profit \<Rightarrow> fgt profit (Fin 0) | None \<Rightarrow> False)
                        counted)),
          int (length counted)))"

definition finishStrategy ::
  "RecommendationRecord list \<Rightarrow> string \<times> StrategyMetrics \<Rightarrow> string \<times> StrategyMetrics" where
  "finishStrategy records e =
     (case e of (strategy, stratMetrics) \<Rightarrow>
        if 0 < Count stratMetrics
        then
          let stratMetrics = stratMetrics\<lparr> AvgReturn :=
                fdiv (StrategyTotalReturn stratMetrics) (float64 (Count stratMetrics)) \<rparr>
          in case strategyWins records strategy of
               (wins, total') \<Rightarrow>
                 if 0 < total'
                 then (strategy, stratMetrics\<lparr> StrategyWinRate :=
                         fmul (fdiv (float64 wins) (float64 total')) (Fin 100) \<rparr>)
                 else (strategy, stratMetrics)
        else (strategy, stratMetrics))"

text \<open>
  \<open>GetMetrics\<close> on the records that \<open>loadRecordsForPeriod\<close> returned for the period (the
  walk over the monthly files is not part of the model).
\<close>

definition GetMetrics :: "RecommendationRecord list \<Rightarrow> PerformanceMetrics" where
  "GetMetrics records =
     (let metrics = \<lparr> TotalRecommendations = int (length records), ExecutedTrades = 0,
                       WinningTrades = 0, LosingTrades = 0, WinRate = Fin 0,
                       AverageReturn = Fin 0, TotalReturn = Fin 0, SharpeRatio = Fin 0,
                       MaxDrawdown = Fin 0, ByStrategy = [] \<rparr>
      in case countRecords records (metrics, []) of
           (metrics, returns) \<Rightarrow>
             let metrics =
                   (if 0 < ExecutedTrades metrics
                    then metrics\<lparr>
                           WinRate := fmul (fdiv (float64 (WinningTrades metrics))
                                              (float64 (ExecutedTrades metrics))) (Fin 100),
                           AverageReturn := fdiv (TotalReturn metrics)
                                              (float64 (ExecutedTrades metrics)) \<rparr>
                    else metrics);
                 metrics =
                   (if 1 < length returns
                    then metrics\<lparr> SharpeRatio := calculateSharpeRatio returns \<rparr>
                    else metrics);
                 metrics = metrics\<lparr> MaxDrawdown := calculateMaxDrawdown returns \<rparr>
             in metrics\<lparr> ByStrategy := map (finishStrategy records) (ByStrategy metrics) \<rparr>)"

section \<open>The metrics as the specification words them\<close>

text \<open>The profits of the records that are executed and have a profit, in the order of the
  records.\<close>

definition executedProfits :: "RecommendationRecord list \<Rightarrow> f64 list" where
  "executedProfits records =
     List.map_filter (\<lambda>rec. if Executed rec then ActualProfit rec else None) records"

definition isWin :: "RecommendationRecord \<Rightarrow> bool" where
  "isWin rec = (case ActualProfit rec of Some profit \<Rightarrow> fgt profit (Fin 0) | None \<Rightarrow> False)"

definition isLoss :: "RecommendationRecord \<Rightarrow> bool" where
  "isLoss rec = (case ActualProfit rec of Some profit \<Rightarrow> flt profit (Fin 0) | None \<Rightarrow> False)"

text \<open>Sample mean, sample standard deviation (denominator \<open>n - 1\<close>) and the Sharpe ratio of
  a sequence of finite values.\<close>

definition sampleMean :: "real list \<Rightarrow> real" where
  "sampleMean xs = sum_list xs / real (length xs)"

definition sampleStdDev :: "real list \<Rightarrow> real" where
  "sampleStdDev xs =
     sqrt (sum_list (map (\<lambda>x. (x - sampleMean xs) * (x - sampleMean xs)) xs)
           / (real (length xs) - 1))"

definition specSharpe :: "real list \<Rightarrow> real" where
  "specSharpe xs =
     (if length xs < 2 \<or> sampleStdDev xs = 0 then 0
      else (sampleMean xs - (5/100) / 252) / sampleStdDev xs * sqrt 252)"

text \<open>
  The drawdown, step by step: the cumulative sum after \<open>k\<close> values, its running peak (the
  largest cumulative sum so far, and at least the 0 the curve starts from), the drawdown
  at step \<open>k\<close>, and the largest drawdown over all steps as a percentage. A maximum keeps
  the value it has unless the next one compares greater.
\<close>

definition specCumulative :: "f64 list \<Rightarrow> nat \<Rightarrow> f64" where
  "specCumulative returns k = foldl fadd (Fin 0) (take k returns)"

definition runningMax :: "f64 list \<Rightarrow> f64" where
  "runningMax xs = foldl (\<lambda>m x. if fgt x m then x else m) (Fin 0) xs"

definition specPeak :: "f64 list \<Rightarrow> nat \<Rightarrow> f64" where
  "specPeak returns k = runningMax (map (specCumulative returns) [1..<Suc k])"

definition specDrawdown :: "f64 list \<Rightarrow> nat \<Rightarrow> f64" where
  "specDrawdown returns k =
     fdiv (fsub (specPeak returns k) (specCumulative returns k)) (specPeak returns k)"

definition specMaxDrawdown :: "f64 list \<Rightarrow> f64" where
  "specMaxDrawdown returns =
     fmul (runningMax (map (specDrawdown returns) [1..<Suc (length returns)])) (Fin 100)"

text \<open>Records to evaluate the metrics on: two executed and closed trades (profits 50 and
  -20), one trade closed without having been marked executed, and one pending
  recommendation; and three executed trades that each made 10.\<close>

definition exampleLedger :: "RecommendationRecord list" where
  "exampleLedger =
     [closedRecord\<lparr> Executed := True \<rparr>,
      closedRecord\<lparr> Executed := True, ActualProfit := Some (Fin (- 20)) \<rparr>,
      closedRecord,
      exampleRecord]"

definition constantLedger :: "RecommendationRecord list" where
  "constantLedger = replicate 3 (closedRecord\<lparr> Executed := True, ActualProfit := Some (Fin 10) \<rparr>)"

text \<open>Three executed trades that each made 0.1, that is, the binary64 nearest to 0.1.\<close>

definition tenthLedger :: "RecommendationRecord list" where
  "tenthLedger =
     replicate 3 (closedRecord\<lparr> Executed := True,
       ActualProfit := Some (Fin (3602879701896397 / 36028797018963968)) \<rparr>)"

definition drawdownLedger :: "RecommendationRecord list" where
  "drawdownLedger =
     [closedRecord\<lparr> Executed := True, ActualProfit := Some (Fin 100) \<rparr>,
      closedRecord\<lparr> Executed := True, ActualProfit := Some (Fin (- 50)) \<rparr>,
      closedRecord\<lparr> Executed := True, ActualProfit := Some (Fin 30) \<rparr>]"

section \<open>The candidate normalizer\<close>

text \<open>
  Strings are byte sequences, as in Go. The functions of package \<open>strings\<close> the parser
  calls: \<open>Index\<close> and \<open>LastIndex\<close> (-1 when there is no occurrence), \<open>Contains\<close>,
  \<open>TrimSuffix\<close>, \<open>Split\<close> for a separator of one byte (the code splits at the newline
  and at the bar), and \<open>TrimSpace\<close>, which removes the leading and trailing white space
  of Unicode: six ASCII characters and the UTF-8 encodings of U+0085, U+00A0, U+1680,
  U+2000 to U+200A, U+2028, U+2029, U+202F, U+205F and U+3000.
\<close>

definition occursAt :: "string \<Rightarrow> string \<Rightarrow> nat \<Rightarrow> bool" where
  "occursAt s substr i = (take (length substr) (drop i s) = substr)"

definition Index :: "string \<Rightarrow> string \<Rightarrow> int" where
  "Index s substr =
     (case filter (occursAt s substr) [0..<Suc (length s)] of
        [] \<Rightarrow> - 1
      | i # _ \<Rightarrow> int i)"

definition LastIndex :: "string \<Rightarrow> string \<Rightarrow> int" where
  "LastIndex s substr =
     (case filter (occursAt s substr) (rev [0..<Suc (length s)]) of
        [] \<Rightarrow> - 1
      | i # _ \<Rightarrow> int i)"

definition Contains :: "string \<Rightarrow> string \<Rightarrow> bool" where
  "Contains s substr = (0 \<le> Index s substr)"

definition TrimSuffix :: "string \<Rightarrow> string \<Rightarrow> string" where
  "TrimSuffix s suffix =
     (if length suffix \<le> length s \<and> drop (length s - length suffix) s = suffix
      then take (length s - length suffix) s
      else s)"

fun Split :: "string \<Rightarrow> char \<Rightarrow> string list" where
  "Split [] sep = [[]]"
| "Split (c # cs) sep =
     (if c = sep then [] # Split cs sep
      else case Split cs sep of
             [] \<Rightarrow> [[c]]
           | p # ps \<Rightarrow> (c # p) # ps)"

definition spaceRunes :: "string list" where
  "spaceRunes =
     [[CHR 0x09], [CHR 0x0A], [CHR 0x0B], [CHR 0x0C], [CHR 0x0D], [CHR 0x20],
      [CHR 0xC2, CHR 0x85], [CHR 0xC2, CHR 0xA0],
      [CHR 0xE1, CHR 0x9A, CHR 0x80],
      [CHR 0xE2, CHR 0x80, CHR 0x80], [CHR 0xE2, CHR 0x80, CHR 0x81],
      [CHR 0xE2, CHR 0x80, CHR 0x82], [CHR 0xE2, CHR 0x80, CHR 0x83],
      [CHR 0xE2, CHR 0x80, CHR 0x84], [CHR 0xE2, CHR 0x80, CHR 0x85],
      [CHR 0xE2, CHR 0x80, CHR 0x86], [CHR 0xE2, CHR 0x80, CHR 0x87],
      [CHR 0xE2, CHR 0x80, CHR 0x88], [CHR 0xE2, CHR 0x80, CHR 0x89],
      [CHR 0xE2, CHR 0x80, CHR 0x8A],
      [CHR 0xE2, CHR 0x80, CHR 0xA8], [CHR 0xE2, CHR 0x80, CHR 0xA9],
      [CHR 0xE2, CHR 0x80, CHR 0xAF],
      [CHR 0xE2, CHR 0x81, CHR 0x9F],
      [CHR 0xE3, CHR 0x80, CHR 0x80]]"

text \<open>The number of bytes of the white-space character a string starts with, or ends
  with; 0 when there is none.\<close>

definition leadingSpace :: "string \<Rightarrow> nat" where
  "leadingSpace s =
     (case find (\<lambda>w. take (length w) s = w) spaceRunes of
        None \<Rightarrow> 0
      | Some w \<Rightarrow> length w)"

definition trailingSpace :: "string \<Rightarrow> nat" where
  "trailingSpace s =
     (case find (\<lambda>w. length w \<le> length s \<and> drop (length s - length w) s = w) spaceRunes of
        None \<Rightarrow> 0
      | Some w \<Rightarrow> length w)"

function TrimLeftSpace :: "string \<Rightarrow> string" where
  "TrimLeftSpace s =
     (if leadingSpace s = 0 \<or> s = [] then s else TrimLeftSpace (drop (leadingSpace s) s))"
  by pat_completeness auto
termination
  by (relation "measure length") auto

function TrimRightSpace :: "string \<Rightarrow> string" where
  "TrimRightSpace s =
     (if trailingSpace s = 0 \<or> s = [] then s
      else TrimRightSpace (take (length s - trailingSpace s) s))"
  by pat_completeness auto
termination
  by (relation "measure length") auto

declare TrimLeftSpace.simps [simp del] TrimRightSpace.simps [simp del]

definition TrimSpace :: "string \<Rightarrow> string" where
  "TrimSpace s = TrimRightSpace (TrimLeftSpace s)"

text \<open>
  \<open>fmt.Sscanf(popStr, "%f", &pop)\<close>. On a string of at most 15 bytes that is a plain decimal
  numeral (digits, then optionally a point and digits) the scan takes the whole string
  and stores its value; what the library does on any other string is the parameter
  \<open>scan\<close> (\<open>None\<close> when nothing is stored).
\<close>

definition isDigit :: "char \<Rightarrow> bool" where
  "isDigit c = (c \<in> set ''0123456789'')"

definition digitValue :: "char \<Rightarrow> nat" where
  "digitValue c = of_char c - 48"

definition digitsValue :: "string \<Rightarrow> nat" where
  "digitsValue ds = foldl (\<lambda>n c. 10 * n + digitValue c) 0 ds"

definition plainDecimal :: "string \<Rightarrow> real option" where
  "plainDecimal s =
     (let whole = takeWhile isDigit s; rest = dropWhile isDigit s
      in if whole = [] \<or> 15 < length s then None
         else if rest = [] then Some (real (digitsValue whole))
         else if hd rest = CHR ''.'' \<and> list_all isDigit (tl rest)
         then Some (real (digitsValue whole)
                    + real (digitsValue (tl rest)) / 10 ^ length (tl rest))
         else None)"

definition Sscanf_f :: "(string \<Rightarrow> f64 option) \<Rightarrow> string \<Rightarrow> f64 option" where
  "Sscanf_f scan s =
     (case plainDecimal s of Some v \<Rightarrow> Some (Fin v) | None \<Rightarrow> scan s)"

text \<open>One row of the table: the body of the loop of \<open>parseTableFormat\<close> once the line is
  known to be a row.\<close>

definition parseRow :: "(string \<Rightarrow> f64 option) \<Rightarrow> string \<Rightarrow> TradeRecommendation option" where
  "parseRow scan line =
     (let parts = Split line (CHR ''|'')
      in if 5 \<le> length parts
         then
           let rec = \<lparr> Ticker = TrimSpace (parts ! 0), Strategy = TrimSpace (parts ! 1),
                        Legs = TrimSpace (parts ! 2), Thesis = TrimSpace (parts ! 3),
                        POP = Fin 0, MaxLoss = Fin 0, MaxProfit = Fin 0, Score = Fin 0 \<rparr>
           in if 4 < length parts
              then
                let popStr = TrimSpace (TrimSuffix (parts ! 4) ''%'');
                    pop = (case Sscanf_f scan popStr of Some v \<Rightarrow> v | None \<Rightarrow> Fin 0)
                in Some (rec\<lparr> POP := fdiv pop (Fin 100) \<rparr>)
              else Some rec
         else None)"

fun parseLines ::
  "(string \<Rightarrow> f64 option) \<Rightarrow> string list \<Rightarrow> bool \<Rightarrow> TradeRecommendation list
     \<Rightarrow> TradeRecommendation list" where
  "parseLines scan [] inTable recommendations = recommendations"
| "parseLines scan (l # lines) inTable recommendations =
     (let line = TrimSpace l
      in if line = [] \<or> Contains line ''Ticker'' \<or> Contains line ''---''
         then parseLines scan lines (if Contains line ''Ticker'' then True else inTable)
                recommendations
         else if \<not> inTable then parseLines scan lines inTable recommendations
         else case parseRow scan line of
                Some rec \<Rightarrow> parseLines scan lines inTable (recommendations @ [rec])
              | None \<Rightarrow> parseLines scan lines inTable recommendations)"

definition parseTableFormat ::
  "(string \<Rightarrow> f64 option) \<Rightarrow> string \<Rightarrow> error + TradeRecommendation list" where
  "parseTableFormat scan response =
     (let recommendations = parseLines scan (Split response (CHR 0x0A)) False []
      in if length recommendations = 0 then Inl NoRecommendationsFound
         else Inr recommendations)"

text \<open>\<open>parseRecommendations\<close>; \<open>unmarshal\<close> is \<open>json.Unmarshal\<close> into a slice of
  \<open>TradeRecommendation\<close> (\<open>None\<close> when it returns an error).\<close>

definition parseRecommendations ::
  "(string \<Rightarrow> TradeRecommendation list option) \<Rightarrow> (string \<Rightarrow> f64 option) \<Rightarrow> string
     \<Rightarrow> error + TradeRecommendation list" where
  "parseRecommendations unmarshal scan response =
     (let startIdx = Index response ''['';
          endIdx = LastIndex response '']''
      in if startIdx \<noteq> - 1 \<and> endIdx \<noteq> - 1 \<and> startIdx < endIdx
         then
           let jsonStr = take (nat (endIdx + 1 - startIdx)) (drop (nat startIdx) response)
           in case unmarshal jsonStr of
                None \<Rightarrow> parseTableFormat scan response
              | Some recommendations \<Rightarrow> Inr recommendations
         else parseTableFormat scan response)"

text \<open>The text of the scenario: a header line, a separator line and one row.\<close>

definition scenarioText :: string where
  "scenarioText =
     ''Ticker | Strategy | Legs | Thesis | 72%'' @ [CHR 0x0A] @
     ''---'' @ [CHR 0x0A] @
     ''SPY | Bull Put Spread | Sell 440P/Buy 435P | strong support | 72%''"

section \<open>Properties of the risk manager\<close>

lemma addViolation_simps:
  "IsValid (addViolation m v) = False"
  "Violations (addViolation m v) = Violations v @ [m]"
  "RequiresApproval (addViolation m v) = RequiresApproval v"
  "RiskScore (addViolation m v) = RiskScore v"
  by (simp_all add: addViolation_def)

lemma checkConcentration_RequiresApproval:
  "RequiresApproval (checkConcentration rm pv m v) = RequiresApproval v"
  by (induction rm pv m v rule: checkConcentration.induct)
     (simp_all add: Let_def addViolation_simps)

text \<open>
  C1. For every candidate and portfolio snapshot, \<open>ValidateTrade\<close> returns
  \<open>IsValid = true\<close> exactly when the violations list is empty; the violations are, in this
  order, the reason of the position-risk check if it fires, the reason of the
  probability check if it fires and the reason of the reward-to-risk check if it fires,
  each check evaluated whatever the others gave; and a candidate whose probability of
  profit is below the minimum is invalid and carries the probability reason.
\<close>

theorem ValidateTrade_violations:
  "IsValid (ValidateTrade rm trade portfolio) =
     (Violations (ValidateTrade rm trade portfolio) = []) \<and>
   Violations (ValidateTrade rm trade portfolio) =
     (if fgt (fmul (fdiv (fabs (MaxLoss trade)) (portfolioValueOf portfolio)) (Fin 100))
             (maxPositionSizePercent rm)
      then [PositionRiskExceeds
              (fmul (fdiv (fabs (MaxLoss trade)) (portfolioValueOf portfolio)) (Fin 100))
              (maxPositionSizePercent rm)]
      else []) @
     (if flt (POP trade) (minProbabilityOfProfit rm)
      then [POPBelowMinimum (fmul (POP trade) (Fin 100))
              (fmul (minProbabilityOfProfit rm) (Fin 100))]
      else []) @
     (if flt (fdiv (MaxProfit trade) (fabs (MaxLoss trade))) (Fin (33/100))
      then [RiskRewardBelowMinimum (fdiv (MaxProfit trade) (fabs (MaxLoss trade)))]
      else []) \<and>
   (flt (POP trade) (minProbabilityOfProfit rm) \<longrightarrow>
      \<not> IsValid (ValidateTrade rm trade portfolio) \<and>
      POPBelowMinimum (fmul (POP trade) (Fin 100)) (fmul (minProbabilityOfProfit rm) (Fin 100))
        \<in> set (Violations (ValidateTrade rm trade portfolio)))"
  by (simp add: ValidateTrade_def Let_def addViolation_simps)

theorem ValidateTrade_violations_witness:
  "flt (Fin (1/2)) (minProbabilityOfProfit NewRiskManager) \<and>
   \<not> IsValid (ValidateTrade NewRiskManager
        \<lparr> Ticker = ''SPY'', Strategy = ''iron condor'', Legs = ''legs'', Thesis = ''thesis'',
          POP = Fin (1/2), MaxLoss = Fin (- 400), MaxProfit = Fin 200, Score = Fin 1 \<rparr>
        Map.empty) \<and>
   Violations (ValidateTrade NewRiskManager
        \<lparr> Ticker = ''SPY'', Strategy = ''iron condor'', Legs = ''legs'', Thesis = ''thesis'',
          POP = Fin (1/2), MaxLoss = Fin (- 400), MaxProfit = Fin 200, Score = Fin 1 \<rparr>
        Map.empty) = [POPBelowMinimum (Fin 50) (Fin 65)]"
  using ValidateTrade_violations [of NewRiskManager
        "\<lparr> Ticker = ''SPY'', Strategy = ''iron condor'', Legs = ''legs'', Thesis = ''thesis'',
          POP = Fin (1/2), MaxLoss = Fin (- 400), MaxProfit = Fin 200, Score = Fin 1 \<rparr>"
        Map.empty]
  by (simp add: NewRiskManager_def portfolioValueOf_def fgt_def)

text \<open>
  C2. The risk score is documented as lying between 0 and 100, and only its upper end is
  clamped. The candidate the table parser produces (no \<open>max_loss\<close>, no \<open>max_profit\<close>:
  both 0) has the reward-to-risk ratio 0/0, so its score is NaN; and a candidate whose
  probability is given as the percentage 72 instead of the fraction 0.72 has a score far
  below 0.
\<close>

theorem calculateRiskScore_out_of_range:
  "RiskScore (ValidateTrade NewRiskManager
     \<lparr> Ticker = ''SPY'', Strategy = ''Bull Put Spread'', Legs = ''Sell 440P/Buy 435P'',
       Thesis = ''strong support'', POP = Fin (72/100), MaxLoss = Fin 0, MaxProfit = Fin 0,
       Score = Fin 0 \<rparr> Map.empty) = NaN \<and>
   RiskScore (ValidateTrade NewRiskManager
     \<lparr> Ticker = ''SPY'', Strategy = ''credit spread'', Legs = ''Sell 440P/Buy 435P'',
       Thesis = ''strong support'', POP = Fin 72, MaxLoss = Fin 500, MaxProfit = Fin 250,
       Score = Fin (85/100) \<rparr> Map.empty) = Fin (- 6230 / 3)"
  by (simp add: ValidateTrade_def calculateRiskScore_def Let_def NewRiskManager_def
      portfolioValueOf_def fmin_def fsub_def getStrategyRiskScore_def strategyRiskMap_def)

text \<open>
  C9. \<open>ValidateTrade\<close> copies \<open>requireManualApproval\<close> into \<open>RequiresApproval\<close>;
  \<open>ValidatePortfolio\<close> never sets the field, so its result says that no approval is
  required, whatever the configuration, and the configuration \<open>NewRiskManager\<close> builds
  always requires approval.
\<close>

theorem ValidatePortfolio_RequiresApproval:
  "RequiresApproval (ValidatePortfolio rm trades portfolio) = False \<and>
   RequiresApproval (ValidateTrade rm trade portfolio) = requireManualApproval rm \<and>
   requireManualApproval NewRiskManager = True"
  by (simp add: ValidatePortfolio_def ValidateTrade_def Let_def addViolation_simps
      checkConcentration_RequiresApproval NewRiskManager_def split: prod.splits)

lemma getStrategyRiskScore_range: "\<exists>k. getStrategyRiskScore s = Fin k \<and> 0 \<le> k"
  by (simp add: getStrategyRiskScore_def strategyRiskMap_def)

lemma fmin_Fin: "fmin (Fin a) (Fin b) = Fin (min a b)"
  by (simp add: fmin_def min_def)

text \<open>
  Where the score does stay within range: a probability in [0,1], a maximum loss other
  than 0, a maximum profit that is not negative, a positive position limit and a position
  risk that is not negative.
\<close>

lemma calculateRiskScore_in_range:
  assumes "POP trade = Fin p" "0 \<le> p" "p \<le> 1"
    and "MaxLoss trade = Fin ml" "ml \<noteq> 0"
    and "MaxProfit trade = Fin mp" "0 \<le> mp"
    and "maxPositionSizePercent rm = Fin l" "0 < l" "0 \<le> prp"
  shows "\<exists>r. calculateRiskScore rm trade (Fin prp) = Fin r \<and> 0 \<le> r \<and> r \<le> 100"
proof -
  obtain k where k: "getStrategyRiskScore (Strategy trade) = Fin k" "0 \<le> k"
    using getStrategyRiskScore_range by blast
  have "0 \<le> mp / \<bar>ml\<bar>"
    using assms(7) by simp
  then have d: "mp / \<bar>ml\<bar> + 1 \<noteq> 0" "0 < mp / \<bar>ml\<bar> + 1"
    by linarith+
  let ?s = "(1 - p) * 30 + min (prp / l * 30) 30 + 1 / (mp / \<bar>ml\<bar> + 1) * 20 + k"
  have "calculateRiskScore rm trade (Fin prp) = Fin (min ?s 100)"
    using assms(1,4,5,6,8,9) k(1) d(1)
    by (simp add: calculateRiskScore_def Let_def fsub_def fmin_Fin)
  moreover have "0 \<le> ?s"
    using assms(2,3,9,10) k(2) d(2) by (simp add: add_nonneg_nonneg)
  ultimately show ?thesis by (intro exI [of _ "min ?s 100"]) simp
qed

lemma addSymbolRisk_bounded:
  "\<forall>p \<in> set m. \<exists>v. snd p = Fin v \<and> v \<le> b \<Longrightarrow> 0 \<le> b \<Longrightarrow>
   \<forall>p \<in> set (addSymbolRisk m s (Fin 100)). \<exists>v. snd p = Fin v \<and> v \<le> b + 100"
proof (induction m)
  case Nil
  then show ?case by simp
next
  case (Cons p m)
  obtain t x where p: "p = (t, x)" by (cases p)
  from Cons.prems(1) p obtain v where v: "x = Fin v" "v \<le> b" by auto
  have tl: "\<forall>q \<in> set m. \<exists>v. snd q = Fin v \<and> v \<le> b" using Cons.prems(1) by simp
  have tl': "\<forall>q \<in> set m. \<exists>v. snd q = Fin v \<and> v \<le> b + 100"
  proof
    fix q assume "q \<in> set m"
    with tl obtain w where "snd q = Fin w" "w \<le> b" by blast
    then show "\<exists>v. snd q = Fin v \<and> v \<le> b + 100" by (intro exI [of _ w]) simp
  qed
  show ?case
  proof (cases "t = s")
    case True
    then show ?thesis using p v tl' by simp
  next
    case False
    have "\<exists>w. snd p = Fin w \<and> w \<le> b + 100" using p v by simp
    then show ?thesis using False p Cons.IH [OF tl Cons.prems(2)] by simp
  qed
qed

lemma accumulateRisk_uniform:
  "\<forall>trade \<in> set trades. MaxLoss trade = Fin (- 100) \<Longrightarrow>
   \<forall>p \<in> set m. \<exists>v. snd p = Fin v \<and> v \<le> b \<Longrightarrow> 0 \<le> b \<Longrightarrow>
   \<exists>m'. accumulateRisk trades (Fin a, m) = (Fin (a + 100 * real (length trades)), m') \<and>
        (\<forall>p \<in> set m'. \<exists>v. snd p = Fin v \<and> v \<le> b + 100 * real (length trades))"
proof (induction trades arbitrary: a m b)
  case Nil
  then show ?case by simp
next
  case (Cons trade trades)
  have ml: "MaxLoss trade = Fin (- 100)" using Cons.prems(1) by simp
  have bnd: "\<forall>p \<in> set (addSymbolRisk m (Ticker trade) (Fin 100)).
               \<exists>v. snd p = Fin v \<and> v \<le> b + 100"
    using addSymbolRisk_bounded [OF Cons.prems(2) Cons.prems(3)] .
  have rest: "\<forall>trade \<in> set trades. MaxLoss trade = Fin (- 100)" using Cons.prems(1) by simp
  from Cons.IH [OF rest bnd, of "a + 100"] Cons.prems(3)
  obtain m' where
    "accumulateRisk trades (Fin (a + 100), addSymbolRisk m (Ticker trade) (Fin 100)) =
       (Fin (a + 100 + 100 * real (length trades)), m')"
    "\<forall>p \<in> set m'. \<exists>v. snd p = Fin v \<and> v \<le> b + 100 + 100 * real (length trades)"
    by auto
  then show ?case using ml by (auto simp: algebra_simps)
qed

lemma fgt_below_limit: "fle (Fin 2) l \<Longrightarrow> x \<le> 2 \<Longrightarrow> \<not> fgt (Fin x) l"
  by (cases l) (auto simp: fgt_def fle_def feq_def)

lemma checkConcentration_none:
  "\<forall>p \<in> set m. \<exists>v. snd p = Fin v \<and> v \<le> 200 \<Longrightarrow>
   fle (Fin 2) (maxConcentrationPercent rm) \<Longrightarrow>
   checkConcentration rm (Fin 10000) m v = v"
proof (induction m arbitrary: v)
  case Nil
  show ?case by simp
next
  case (Cons p m)
  obtain t x where p: "p = (t, x)" by (cases p)
  from Cons.prems(1) p obtain w where w: "x = Fin w" "w \<le> 200" by auto
  have "\<not> fgt (Fin (w / 100)) (maxConcentrationPercent rm)"
    using fgt_below_limit [OF Cons.prems(2), of "w / 100"] w(2) by simp
  moreover have "\<forall>q \<in> set m. \<exists>v. snd q = Fin v \<and> v \<le> 200"
    using Cons.prems(1) by simp
  ultimately show ?case
    using Cons.IH [OF _ Cons.prems(2)] p w(1) by (simp add: Let_def)
qed

lemma checkConcentration_keeps:
  "\<not> IsValid v \<Longrightarrow> \<not> IsValid (checkConcentration rm pv m v)"
  "x \<in> set (Violations v) \<Longrightarrow> x \<in> set (Violations (checkConcentration rm pv m v))"
  by (induction rm pv m v rule: checkConcentration.induct)
     (simp_all add: Let_def addViolation_simps)

text \<open>
  C8. Under a portfolio-risk limit of 2.0 and a concentration limit of at least 2 (the
  configuration \<open>NewRiskManager\<close> builds has 10.0), and for a portfolio of total value
  10000, a basket of candidates that each have \<open>MaxLoss = -100\<close> is valid, with no
  violation, when it has at most two candidates, and is invalid with the
  total-portfolio-risk violation when it has three or more: the comparison is strict, so
  exactly 2 percent passes.
\<close>

theorem ValidatePortfolio_basket:
  assumes "\<forall>trade \<in> set trades. MaxLoss trade = Fin (- 100)"
    and "portfolio ''total_value'' = Some (IFloat64 (Fin 10000))"
    and "maxPortfolioRiskPercent rm = Fin 2"
    and "fle (Fin 2) (maxConcentrationPercent rm)"
  shows "(length trades \<le> 2 \<longrightarrow>
            IsValid (ValidatePortfolio rm trades portfolio) \<and>
            Violations (ValidatePortfolio rm trades portfolio) = []) \<and>
         (3 \<le> length trades \<longrightarrow>
            \<not> IsValid (ValidatePortfolio rm trades portfolio) \<and>
            TotalPortfolioRiskExceeds (Fin (real (length trades))) (Fin 2)
              \<in> set (Violations (ValidatePortfolio rm trades portfolio)))"
proof -
  have pv: "portfolioValueOf portfolio = Fin 10000"
    using assms(2) by (simp add: portfolioValueOf_def fle_def feq_def)
  from accumulateRisk_uniform [OF assms(1), of "[]" 0 0]
  obtain m' where acc: "accumulateRisk trades (Fin 0, []) = (Fin (100 * real (length trades)), m')"
    and bnd: "\<forall>p \<in> set m'. \<exists>v. snd p = Fin v \<and> v \<le> 100 * real (length trades)"
    by auto
  note lim = assms(3)
  show ?thesis
  proof (intro conjI impI)
    assume le: "length trades \<le> 2"
    then have "100 * real (length trades) \<le> 200" by simp
    with bnd have b2: "\<forall>p \<in> set m'. \<exists>v. snd p = Fin v \<and> v \<le> 200" by fastforce
    have nofire: "\<not> fgt (Fin (real (length trades))) (Fin 2)" using le by (simp add: fgt_def)
    show "IsValid (ValidatePortfolio rm trades portfolio)"
      using nofire
      by (simp add: ValidatePortfolio_def pv acc checkConcentration_none [OF b2 assms(4)] lim)
    show "Violations (ValidatePortfolio rm trades portfolio) = []"
      using nofire
      by (simp add: ValidatePortfolio_def pv acc checkConcentration_none [OF b2 assms(4)] lim)
  next
    assume ge: "3 \<le> length trades"
    then have fire: "fgt (Fin (real (length trades))) (Fin 2)" by (simp add: fgt_def)
    show "\<not> IsValid (ValidatePortfolio rm trades portfolio)"
      using fire by (simp add: ValidatePortfolio_def pv acc lim
          checkConcentration_keeps addViolation_simps)
    show "TotalPortfolioRiskExceeds (Fin (real (length trades))) (Fin 2)
              \<in> set (Violations (ValidatePortfolio rm trades portfolio))"
      using fire by (simp add: ValidatePortfolio_def pv acc lim
          checkConcentration_keeps addViolation_simps)
  qed
qed

theorem ValidatePortfolio_basket_witness:
  "IsValid (ValidatePortfolio NewRiskManager (exampleBasket 2) examplePortfolio) \<and>
   \<not> IsValid (ValidatePortfolio NewRiskManager (exampleBasket 3) examplePortfolio) \<and>
   TotalPortfolioRiskExceeds (Fin 3) (Fin 2)
     \<in> set (Violations (ValidatePortfolio NewRiskManager (exampleBasket 3) examplePortfolio))"
  using ValidatePortfolio_basket [of "exampleBasket 2" examplePortfolio NewRiskManager]
    ValidatePortfolio_basket [of "exampleBasket 3" examplePortfolio NewRiskManager]
  by (simp add: exampleBasket_def examplePortfolio_def exampleCandidate_def NewRiskManager_def
      fle_def)

section \<open>Properties of the performance tracker\<close>

lemma formatNat_ex1: "formatNat 1700000000 = ''1700000000''"
  by (simp add: formatNat.simps)

lemma formatNat_ex2: "formatNat 5 = ''5''"
  by (simp add: formatNat.simps)

lemma generateRecordID_example:
  "generateRecordID 1700000000000000003 1700000000000000005 = ''rec_1700000000_5''"
  by (simp add: generateRecordID_def Unix_def Nanosecond_def formatInt_def formatNat_ex1 formatNat_ex2)

text \<open>Text that is valid UTF-8 is written and read back unchanged; ASCII text is valid.\<close>

lemma coerceUTF8_valid: "validUTF8 s \<Longrightarrow> coerceUTF8 s = s"
proof (induction s rule: coerceUTF8.induct)
  case (1 s)
  show ?case
  proof (cases "s = []")
    case True
    then show ?thesis by (simp add: coerceUTF8.simps)
  next
    case False
    from "1.prems" False have w: "runeWidth s \<noteq> 0" and v: "validUTF8 (drop (runeWidth s) s)"
      by (simp_all add: validUTF8.simps [of s] split: if_splits)
    from "1.IH"(2) [OF False w v] have "coerceUTF8 (drop (runeWidth s) s) = drop (runeWidth s) s" .
    then show ?thesis using False w by (simp add: coerceUTF8.simps [of s])
  qed
qed

lemma validUTF8_ascii: "\<forall>c \<in> set s. of_char c < (128::nat) \<Longrightarrow> validUTF8 s"
proof (induction s)
  case Nil
  show ?case by (simp add: validUTF8.simps)
next
  case (Cons c s)
  then have "runeWidth (c # s) = 1" by simp
  then show ?case using Cons by (simp add: validUTF8.simps [of "c # s"])
qed

lemma formatNat_digits: "set (formatNat n) \<subseteq> set ''0123456789''"
proof (induction n rule: formatNat.induct)
  case (1 n)
  have d: "''0123456789'' ! k \<in> set ''0123456789''" if "k < 10" for k
    using that nth_mem [of k "''0123456789''"] by simp
  show ?case
  proof (cases "n < 10")
    case True
    then show ?thesis using d [of n] by (simp add: formatNat.simps [of n])
  next
    case False
    then show ?thesis using "1.IH" d [of "n mod 10"] by (simp add: formatNat.simps [of n])
  qed
qed

lemma formatNat_ascii: "\<forall>c \<in> set (formatNat n). of_char c < (128::nat)"
proof -
  have "\<forall>c \<in> set ''0123456789''. of_char c < (128::nat)" by simp
  then show ?thesis using formatNat_digits [of n] by blast
qed

lemma formatInt_ascii: "\<forall>c \<in> set (formatInt i). of_char c < (128::nat)"
  by (simp add: formatInt_def formatNat_ascii)

lemma generateRecordID_valid: "validUTF8 (generateRecordID now1 now2)"
  by (rule validUTF8_ascii) (simp add: generateRecordID_def formatInt_ascii ball_Un)

lemma example_text_valid:
  "validUTF8 ''SPY''" "validUTF8 ''credit spread''" "validUTF8 ''Sell 440P/Buy 435P''"
  "validUTF8 ''strong support''" "validUTF8 ''rec_1700000000_5''" "validUTF8 ''pending''"
  "validUTF8 ''executed''" "validUTF8 ''closed''" "validUTF8 ''expired''"
  by (rule validUTF8_ascii, simp)+

lemma jsonRecord_valid:
  assumes "validUTF8 (ID r)" and "validUTF8 (Status r)"
    and "validUTF8 (Ticker (Recommendation r))" and "validUTF8 (Strategy (Recommendation r))"
    and "validUTF8 (Legs (Recommendation r))" and "validUTF8 (Thesis (Recommendation r))"
  shows "jsonRecord r = r"
  using assms by (simp add: jsonRecord_def coerceUTF8_valid)

lemma exampleCandidate_valid:
  "validUTF8 (Ticker exampleCandidate)" "validUTF8 (Strategy exampleCandidate)"
  "validUTF8 (Legs exampleCandidate)" "validUTF8 (Thesis exampleCandidate)"
  by (simp_all add: exampleCandidate_def example_text_valid)

lemma jsonRecord_literal:
  assumes "validUTF8 i" and "validUTF8 s"
    and "validUTF8 (Ticker c)" and "validUTF8 (Strategy c)"
    and "validUTF8 (Legs c)" and "validUTF8 (Thesis c)"
  shows "jsonRecord \<lparr> ID = i, Timestamp = t, Recommendation = c, Executed = e,
                       ExecutionTime = et, ExitTime = xt, ActualProfit = ap, Status = s \<rparr> =
         \<lparr> ID = i, Timestamp = t, Recommendation = c, Executed = e,
           ExecutionTime = et, ExitTime = xt, ActualProfit = ap, Status = s \<rparr>"
  using assms by (intro jsonRecord_valid) simp_all

lemma exampleCandidate_encodable:
  "encodable \<lparr> ID = i, Timestamp = t, Recommendation = exampleCandidate, Executed = e, ExecutionTime = et,
       ExitTime = xt, ActualProfit = None, Status = s \<rparr>"
  "encodable \<lparr> ID = i, Timestamp = t, Recommendation = exampleCandidate, Executed = e, ExecutionTime = et,
       ExitTime = xt, ActualProfit = Some (Fin p), Status = s \<rparr>"
  by (simp_all add: encodable_def exampleCandidate_def isFinite_def)

lemma exampleRecord_encodable: "encodable exampleRecord" "encodable closedRecord"
  by (simp_all add: exampleRecord_def closedRecord_def exampleCandidate_encodable)

lemma jsonRecord_examples:
  "jsonRecord exampleRecord = exampleRecord"
  "jsonRecord closedRecord = closedRecord"
  by (simp_all add: exampleRecord_def closedRecord_def jsonRecord_literal example_text_valid
      exampleCandidate_valid)

lemma RecordRecommendation_example:
  "RecordRecommendation exampleCandidate 1700000000000000003 1700000000000000005
     1700000000000000007 emptyTracker =
   Inr (exampleRecord, \<lparr> currentFile = Content [exampleRecord], writable = True \<rparr>)"
proof -
  have "\<lparr> ID = ''rec_1700000000_5'', Timestamp = 1700000000000000007,
          Recommendation = exampleCandidate, Executed = False, ExecutionTime = None,
          ExitTime = None, ActualProfit = None, Status = ''pending'' \<rparr> = exampleRecord"
    by (simp add: exampleRecord_def)
  then show ?thesis
    by (simp add: RecordRecommendation_def loadRecords_def saveRecords_def emptyTracker_def
        generateRecordID_example exampleRecord_encodable jsonRecord_examples Let_def)
qed

text \<open>
  C7 (as amended). For a candidate whose ticker, strategy, legs and thesis are valid UTF-8:
  whenever \<open>RecordRecommendation\<close> returns a record, \<open>GetRecommendationHistory(1)\<close> on the
  tracker it leaves returns exactly that record, which has status \<open>pending\<close>, is not
  executed and carries the candidate.
\<close>

theorem RecordRecommendation_roundtrip:
  assumes "RecordRecommendation rec now1 now2 now3 pt = Inr (record, pt')"
    and "validUTF8 (Ticker rec)" and "validUTF8 (Strategy rec)"
    and "validUTF8 (Legs rec)" and "validUTF8 (Thesis rec)"
  shows "GetRecommendationHistory 1 pt' = Inr [record] \<and>
         Status record = ''pending'' \<and> Executed record = False \<and>
         Recommendation record = rec"
proof -
  from assms(1) obtain records where
    rec: "record = \<lparr> ID = generateRecordID now1 now2, Timestamp = now3, Recommendation = rec,
                      Executed = False, ExecutionTime = None, ExitTime = None,
                      ActualProfit = None, Status = ''pending'' \<rparr>"
    and cf: "currentFile pt' = Content (map jsonRecord (records @ [record]))"
    by (auto simp: RecordRecommendation_def saveRecords_def Let_def split: sum.splits if_splits)
  have "jsonRecord record = record"
    using assms(2-5)
    by (intro jsonRecord_valid) (simp_all add: rec generateRecordID_valid example_text_valid)
  then have cf': "currentFile pt' = Content (map jsonRecord records @ [record])"
    using cf by simp
  have "GetRecommendationHistory 1 pt' = Inr [record]"
    by (cases "records = []") (auto simp: GetRecommendationHistory_def loadRecords_def cf')
  then show ?thesis using rec by simp
qed

theorem RecordRecommendation_roundtrip_witness:
  "RecordRecommendation exampleCandidate 1700000000000000003 1700000000000000005
     1700000000000000007 emptyTracker =
     Inr (exampleRecord, \<lparr> currentFile = Content [exampleRecord], writable = True \<rparr>) \<and>
   validUTF8 (Ticker exampleCandidate) \<and> validUTF8 (Strategy exampleCandidate) \<and>
   validUTF8 (Legs exampleCandidate) \<and> validUTF8 (Thesis exampleCandidate) \<and>
   GetRecommendationHistory 1 \<lparr> currentFile = Content [exampleRecord], writable = True \<rparr> =
     Inr [exampleRecord] \<and> Status exampleRecord = ''pending''"
proof -
  have v: "validUTF8 (Ticker exampleCandidate)" "validUTF8 (Strategy exampleCandidate)"
    "validUTF8 (Legs exampleCandidate)" "validUTF8 (Thesis exampleCandidate)"
    by (simp_all add: exampleCandidate_def example_text_valid)
  from RecordRecommendation_roundtrip [OF RecordRecommendation_example v]
  show ?thesis using RecordRecommendation_example v by simp
qed

text \<open>
  C7 as stated fails: for the candidate whose ticker is the bytes 53 50 FF the call
  succeeds and returns the record with that ticker, and \<open>GetRecommendationHistory(1)\<close>
  returns a record whose ticker is 53 50 EF BF BD.
\<close>

theorem invalid_text_not_exact:
  "RecordRecommendation invalidCandidate 1700000000000000003 1700000000000000005
     1700000000000000007 emptyTracker =
     Inr (exampleRecord\<lparr> Recommendation := invalidCandidate \<rparr>,
          \<lparr> currentFile =
              Content [exampleRecord\<lparr> Recommendation :=
                         invalidCandidate\<lparr> Ticker := [CHR 0x53, CHR 0x50, CHR 0xEF, CHR 0xBF, CHR 0xBD] \<rparr> \<rparr>],
            writable = True \<rparr>) \<and>
   GetRecommendationHistory 1
     \<lparr> currentFile =
         Content [exampleRecord\<lparr> Recommendation :=
                    invalidCandidate\<lparr> Ticker := [CHR 0x53, CHR 0x50, CHR 0xEF, CHR 0xBF, CHR 0xBD] \<rparr> \<rparr>],
       writable = True \<rparr> =
     Inr [exampleRecord\<lparr> Recommendation :=
            invalidCandidate\<lparr> Ticker := [CHR 0x53, CHR 0x50, CHR 0xEF, CHR 0xBF, CHR 0xBD] \<rparr> \<rparr>] \<and>
   exampleRecord\<lparr> Recommendation :=
       invalidCandidate\<lparr> Ticker := [CHR 0x53, CHR 0x50, CHR 0xEF, CHR 0xBF, CHR 0xBD] \<rparr> \<rparr>
     \<noteq> exampleRecord\<lparr> Recommendation := invalidCandidate \<rparr>"
proof -
  have t: "coerceUTF8 [CHR 0x53, CHR 0x50, CHR 0xFF] = [CHR 0x53, CHR 0x50, CHR 0xEF, CHR 0xBF, CHR 0xBD]"
    by (simp add: coerceUTF8.simps)
  have j: "jsonRecord (exampleRecord\<lparr> Recommendation := invalidCandidate \<rparr>) =
      exampleRecord\<lparr> Recommendation :=
        invalidCandidate\<lparr> Ticker := [CHR 0x53, CHR 0x50, CHR 0xEF, CHR 0xBF, CHR 0xBD] \<rparr> \<rparr>"
    by (simp add: jsonRecord_def exampleRecord_def invalidCandidate_def exampleCandidate_def t
        coerceUTF8_valid example_text_valid)
  have e: "encodable (exampleRecord\<lparr> Recommendation := invalidCandidate \<rparr>)"
    by (simp add: encodable_def exampleRecord_def invalidCandidate_def exampleCandidate_def
        isFinite_def)
  have r: "\<lparr> ID = ''rec_1700000000_5'', Timestamp = 1700000000000000007,
          Recommendation = invalidCandidate, Executed = False, ExecutionTime = None,
          ExitTime = None, ActualProfit = None, Status = ''pending'' \<rparr> =
        exampleRecord\<lparr> Recommendation := invalidCandidate \<rparr>"
    by (simp add: exampleRecord_def)
  have a: "RecordRecommendation invalidCandidate 1700000000000000003 1700000000000000005
     1700000000000000007 emptyTracker =
     Inr (exampleRecord\<lparr> Recommendation := invalidCandidate \<rparr>,
          \<lparr> currentFile =
              Content [exampleRecord\<lparr> Recommendation :=
                         invalidCandidate\<lparr> Ticker := [CHR 0x53, CHR 0x50, CHR 0xEF, CHR 0xBF, CHR 0xBD] \<rparr> \<rparr>],
            writable = True \<rparr>)"
    by (simp add: RecordRecommendation_def loadRecords_def saveRecords_def emptyTracker_def
        generateRecordID_example r e j Let_def)
  have b: "GetRecommendationHistory 1
     \<lparr> currentFile =
         Content [exampleRecord\<lparr> Recommendation :=
                    invalidCandidate\<lparr> Ticker := [CHR 0x53, CHR 0x50, CHR 0xEF, CHR 0xBF, CHR 0xBD] \<rparr> \<rparr>],
       writable = True \<rparr> =
     Inr [exampleRecord\<lparr> Recommendation :=
            invalidCandidate\<lparr> Ticker := [CHR 0x53, CHR 0x50, CHR 0xEF, CHR 0xBF, CHR 0xBD] \<rparr> \<rparr>]"
    by (simp add: GetRecommendationHistory_def loadRecords_def)
  have c: "exampleRecord\<lparr> Recommendation :=
       invalidCandidate\<lparr> Ticker := [CHR 0x53, CHR 0x50, CHR 0xEF, CHR 0xBF, CHR 0xBD] \<rparr> \<rparr>
     \<noteq> exampleRecord\<lparr> Recommendation := invalidCandidate \<rparr>"
    by (simp add: exampleRecord_def invalidCandidate_def exampleCandidate_def)
  show ?thesis using a b c by blast
qed

lemma RecordRecommendation_succeeds:
  assumes "loadRecords pt = Inr records" "list_all encodable records" "writable pt"
    "isFinite (POP rec)" "isFinite (MaxLoss rec)" "isFinite (MaxProfit rec)" "isFinite (Score rec)"
  shows "\<exists>record pt'. RecordRecommendation rec now1 now2 now3 pt = Inr (record, pt')"
  using assms by (simp add: RecordRecommendation_def saveRecords_def encodable_def Let_def)

lemma markExecution_length: "length (markExecution records recordID executed now) = length records"
  by (induction records) simp_all

lemma markResult_length: "length (markResult records recordID profit now) = length records"
  by (induction records) simp_all

lemma markExecution_False_Status:
  "i < length records \<Longrightarrow> Status (markExecution records recordID False now ! i) = Status (records ! i)"
  by (induction records arbitrary: i) (auto simp: nth_Cons split: nat.splits)

lemma markExecution_other:
  "i < length records \<Longrightarrow> ID (records ! i) \<noteq> recordID \<Longrightarrow>
   markExecution records recordID executed now ! i = records ! i"
  by (induction records arbitrary: i) (auto simp: nth_Cons split: nat.splits)

lemma markResult_other:
  "i < length records \<Longrightarrow> ID (records ! i) \<noteq> recordID \<Longrightarrow>
   markResult records recordID profit now ! i = records ! i"
  by (induction records arbitrary: i) (auto simp: nth_Cons split: nat.splits)

lemma markResult_closed:
  "i < length records \<Longrightarrow> Status (records ! i) = ''closed'' \<Longrightarrow>
   Status (markResult records recordID profit now ! i) = ''closed''"
  by (induction records arbitrary: i) (auto simp: nth_Cons split: nat.splits)

lemma UpdateExecution_result:
  "loadRecords pt = Inr records \<Longrightarrow> UpdateExecution recordID executed now pt = Inr pt' \<Longrightarrow>
   loadRecords pt' = Inr (map jsonRecord (markExecution records recordID executed now))"
  by (auto simp: UpdateExecution_def saveRecords_def loadRecords_def split: if_splits)

lemma UpdateTradeResult_result:
  "loadRecords pt = Inr records \<Longrightarrow> UpdateTradeResult recordID profit now pt = Inr pt' \<Longrightarrow>
   loadRecords pt' = Inr (map jsonRecord (markResult records recordID profit now))"
  by (auto simp: UpdateTradeResult_def saveRecords_def loadRecords_def split: if_splits)

lemma jsonRecord_terminal_Status:
  "Status r = ''closed'' \<or> Status r = ''expired'' \<Longrightarrow> Status (jsonRecord r) = Status r"
  by (auto simp: jsonRecord_def coerceUTF8_valid example_text_valid)

text \<open>
  C3 (as amended). For a record of the partition whose status is \<open>closed\<close> or \<open>expired\<close>:
  a successful \<open>UpdateExecution\<close> keeps the number of records and leaves the record's
  status unchanged when \<open>executed\<close> is false or the id is another record's; a successful
  \<open>UpdateTradeResult\<close> keeps the number of records and leaves the status unchanged when the
  record is closed or the id is another record's.
\<close>

theorem terminal_status_updates:
  assumes "loadRecords pt = Inr records" and "i < length records"
    and "Status (records ! i) = ''closed'' \<or> Status (records ! i) = ''expired''"
  shows "(UpdateExecution recordID executed now pt = Inr pt' \<longrightarrow>
            (\<exists>records'. loadRecords pt' = Inr records' \<and> length records' = length records \<and>
               (\<not> executed \<or> ID (records ! i) \<noteq> recordID \<longrightarrow>
                  Status (records' ! i) = Status (records ! i)))) \<and>
         (UpdateTradeResult recordID profit now' pt = Inr pt'' \<longrightarrow>
            (\<exists>records'. loadRecords pt'' = Inr records' \<and> length records' = length records \<and>
               (Status (records ! i) = ''closed'' \<or> ID (records ! i) \<noteq> recordID \<longrightarrow>
                  Status (records' ! i) = Status (records ! i))))"
proof (intro conjI impI)
  let ?rs = "markExecution records recordID executed now"
  assume "UpdateExecution recordID executed now pt = Inr pt'"
  from UpdateExecution_result [OF assms(1) this]
  have l: "loadRecords pt' = Inr (map jsonRecord ?rs)" .
  have keep: "\<not> executed \<or> ID (records ! i) \<noteq> recordID \<longrightarrow>
      Status (?rs ! i) = Status (records ! i)"
    using markExecution_False_Status [OF assms(2)] markExecution_other [OF assms(2)] by auto
  have "\<not> executed \<or> ID (records ! i) \<noteq> recordID \<longrightarrow>
      Status (map jsonRecord ?rs ! i) = Status (records ! i)"
  proof
    assume c: "\<not> executed \<or> ID (records ! i) \<noteq> recordID"
    with keep have s: "Status (?rs ! i) = Status (records ! i)" by simp
    then have "Status (jsonRecord (?rs ! i)) = Status (?rs ! i)"
      using assms(3) by (intro jsonRecord_terminal_Status) simp
    then show "Status (map jsonRecord ?rs ! i) = Status (records ! i)"
      using s assms(2) by (simp add: markExecution_length)
  qed
  then show "\<exists>records'. loadRecords pt' = Inr records' \<and> length records' = length records \<and>
               (\<not> executed \<or> ID (records ! i) \<noteq> recordID \<longrightarrow>
                  Status (records' ! i) = Status (records ! i))"
    using l by (intro exI [of _ "map jsonRecord ?rs"]) (simp add: markExecution_length)
next
  let ?rs = "markResult records recordID profit now'"
  assume "UpdateTradeResult recordID profit now' pt = Inr pt''"
  from UpdateTradeResult_result [OF assms(1) this]
  have l: "loadRecords pt'' = Inr (map jsonRecord ?rs)" .
  have keep: "Status (records ! i) = ''closed'' \<or> ID (records ! i) \<noteq> recordID \<longrightarrow>
      Status (?rs ! i) = Status (records ! i)"
    using markResult_closed [OF assms(2)] markResult_other [OF assms(2)] by auto
  have "Status (records ! i) = ''closed'' \<or> ID (records ! i) \<noteq> recordID \<longrightarrow>
      Status (map jsonRecord ?rs ! i) = Status (records ! i)"
  proof
    assume c: "Status (records ! i) = ''closed'' \<or> ID (records ! i) \<noteq> recordID"
    with keep have s: "Status (?rs ! i) = Status (records ! i)" by simp
    then have "Status (jsonRecord (?rs ! i)) = Status (?rs ! i)"
      using assms(3) by (intro jsonRecord_terminal_Status) simp
    then show "Status (map jsonRecord ?rs ! i) = Status (records ! i)"
      using s assms(2) by (simp add: markResult_length)
  qed
  then show "\<exists>records'. loadRecords pt'' = Inr records' \<and> length records' = length records \<and>
               (Status (records ! i) = ''closed'' \<or> ID (records ! i) \<noteq> recordID \<longrightarrow>
                  Status (records' ! i) = Status (records ! i))"
    using l by (intro exI [of _ "map jsonRecord ?rs"]) (simp add: markResult_length)
qed

text \<open>
  C3 as stated fails: a record created and closed through the tracker's own operations is
  set back to \<open>executed\<close> by \<open>UpdateExecution\<close> with its id and \<open>executed = true\<close>.
\<close>

theorem closed_record_reopened:
  "RecordRecommendation exampleCandidate 1700000000000000003 1700000000000000005
     1700000000000000007 emptyTracker =
     Inr (exampleRecord, \<lparr> currentFile = Content [exampleRecord], writable = True \<rparr>) \<and>
   UpdateTradeResult ''rec_1700000000_5'' (Fin 50) 1700000000000000009
     \<lparr> currentFile = Content [exampleRecord], writable = True \<rparr> =
     Inr \<lparr> currentFile =
             Content [exampleRecord\<lparr> ExitTime := Some 1700000000000000009,
                        ActualProfit := Some (Fin 50), Status := ''closed'' \<rparr>],
           writable = True \<rparr> \<and>
   UpdateExecution ''rec_1700000000_5'' True 1700000000000000011
     \<lparr> currentFile =
         Content [exampleRecord\<lparr> ExitTime := Some 1700000000000000009,
                    ActualProfit := Some (Fin 50), Status := ''closed'' \<rparr>],
       writable = True \<rparr> =
     Inr \<lparr> currentFile =
             Content [exampleRecord\<lparr> Executed := True, ExecutionTime := Some 1700000000000000011,
                        ExitTime := Some 1700000000000000009,
                        ActualProfit := Some (Fin 50), Status := ''executed'' \<rparr>],
           writable = True \<rparr>"
  by (simp add: RecordRecommendation_example UpdateTradeResult_def UpdateExecution_def
      loadRecords_def saveRecords_def exampleRecord_def exampleCandidate_encodable
      jsonRecord_literal example_text_valid exampleCandidate_valid)

theorem terminal_status_updates_witness:
  "loadRecords \<lparr> currentFile = Content [closedRecord], writable = True \<rparr> = Inr [closedRecord] \<and>
   Status ([closedRecord] ! 0) = ''closed'' \<and>
   UpdateExecution ''rec_1700000000_5'' False 1700000000000000011
     \<lparr> currentFile = Content [closedRecord], writable = True \<rparr> =
     Inr \<lparr> currentFile = Content [closedRecord], writable = True \<rparr> \<and>
   UpdateTradeResult ''rec_1700000000_5'' (Fin 70) 1700000000000000013
     \<lparr> currentFile = Content [closedRecord], writable = True \<rparr> =
     Inr \<lparr> currentFile =
             Content [closedRecord\<lparr> ExitTime := Some 1700000000000000013,
                        ActualProfit := Some (Fin 70) \<rparr>], writable = True \<rparr> \<and>
   (\<exists>records'.
      loadRecords \<lparr> currentFile =
             Content [closedRecord\<lparr> ExitTime := Some 1700000000000000013,
                        ActualProfit := Some (Fin 70) \<rparr>], writable = True \<rparr> = Inr records' \<and>
      length records' = 1 \<and> Status (records' ! 0) = ''closed'')"
  using terminal_status_updates [of "\<lparr> currentFile = Content [closedRecord], writable = True \<rparr>"
      "[closedRecord]" 0 "''rec_1700000000_5''" False 1700000000000000011
      "\<lparr> currentFile = Content [closedRecord], writable = True \<rparr>"
      "Fin 70" 1700000000000000013
      "\<lparr> currentFile = Content [closedRecord\<lparr> ExitTime := Some 1700000000000000013,
                        ActualProfit := Some (Fin 70) \<rparr>], writable = True \<rparr>"]
  by (simp add: loadRecords_def UpdateExecution_def UpdateTradeResult_def saveRecords_def
      closedRecord_def exampleRecord_def exampleCandidate_encodable
      jsonRecord_literal example_text_valid exampleCandidate_valid)

section \<open>Properties of the metrics\<close>

lemma executedProfits_simps:
  "executedProfits [] = []"
  "executedProfits (rec # records) =
     (if Executed rec then (case ActualProfit rec of None \<Rightarrow> executedProfits records
                            | Some p \<Rightarrow> p # executedProfits records)
      else executedProfits records)"
  by (simp_all add: executedProfits_def map_filter_simps split: option.splits)

lemma countRecords_returns:
  "snd (countRecords records s) = snd s @ executedProfits records"
  by (induction records arbitrary: s)
     (auto simp: countRecord_def executedProfits_simps Let_def split: prod.splits option.splits)

lemma countRecords_ExecutedTrades:
  "ExecutedTrades (fst (countRecords records s)) =
     ExecutedTrades (fst s) + int (length (filter Executed records))"
  by (induction records arbitrary: s)
     (auto simp: countRecord_def Let_def split: prod.splits option.splits)

lemma countRecords_WinningTrades:
  "WinningTrades (fst (countRecords records s)) =
     WinningTrades (fst s) + int (length (filter (\<lambda>rec. Executed rec \<and> isWin rec) records))"
  by (induction records arbitrary: s)
     (auto simp: countRecord_def isWin_def Let_def split: prod.splits option.splits)

lemma flt_fgt_excl: "flt p (Fin 0) \<Longrightarrow> \<not> fgt p (Fin 0)"
  by (cases p) (auto simp: fgt_def)

lemma countRecords_LosingTrades:
  "LosingTrades (fst (countRecords records s)) =
     LosingTrades (fst s) + int (length (filter (\<lambda>rec. Executed rec \<and> isLoss rec) records))"
  by (induction records arbitrary: s)
     (auto simp: countRecord_def isLoss_def Let_def flt_fgt_excl split: prod.splits option.splits)

lemma countRecords_TotalReturn:
  "TotalReturn (fst (countRecords records s)) =
     foldl fadd (TotalReturn (fst s)) (executedProfits records)"
  by (induction records arbitrary: s)
     (auto simp: countRecord_def executedProfits_simps Let_def split: prod.splits option.splits)

lemma foldl_fadd_Fin: "foldl fadd (Fin a) (map Fin xs) = Fin (a + sum_list xs)"
  by (induction xs arbitrary: a) (simp_all add: add.assoc)

lemma GetMetrics_unfold:
  "countRecords records
     (\<lparr> TotalRecommendations = int (length records), ExecutedTrades = 0,
                       WinningTrades = 0, LosingTrades = 0, WinRate = Fin 0,
                       AverageReturn = Fin 0, TotalReturn = Fin 0, SharpeRatio = Fin 0,
                       MaxDrawdown = Fin 0, ByStrategy = [] \<rparr>, []) = (m, rs) \<Longrightarrow>
   ExecutedTrades (GetMetrics records) = ExecutedTrades m \<and>
   WinningTrades (GetMetrics records) = WinningTrades m \<and>
   LosingTrades (GetMetrics records) = LosingTrades m \<and>
   TotalReturn (GetMetrics records) = TotalReturn m \<and>
   WinRate (GetMetrics records) =
     (if 0 < ExecutedTrades m
      then fmul (fdiv (float64 (WinningTrades m)) (float64 (ExecutedTrades m))) (Fin 100)
      else WinRate m) \<and>
   AverageReturn (GetMetrics records) =
     (if 0 < ExecutedTrades m then fdiv (TotalReturn m) (float64 (ExecutedTrades m))
      else AverageReturn m) \<and>
   SharpeRatio (GetMetrics records) =
     (if 1 < length rs then calculateSharpeRatio rs else SharpeRatio m) \<and>
   MaxDrawdown (GetMetrics records) = calculateMaxDrawdown rs"
  by (simp add: GetMetrics_def Let_def)


lemma GetMetrics_fields:
  "ExecutedTrades (GetMetrics records) = int (length (filter Executed records))"
  "WinningTrades (GetMetrics records) =
     int (length (filter (\<lambda>rec. Executed rec \<and> isWin rec) records))"
  "LosingTrades (GetMetrics records) =
     int (length (filter (\<lambda>rec. Executed rec \<and> isLoss rec) records))"
  "TotalReturn (GetMetrics records) = foldl fadd (Fin 0) (executedProfits records)"
  "WinRate (GetMetrics records) =
     (if 0 < ExecutedTrades (GetMetrics records)
      then fmul (fdiv (float64 (WinningTrades (GetMetrics records)))
                   (float64 (ExecutedTrades (GetMetrics records)))) (Fin 100)
      else Fin 0)"
  "AverageReturn (GetMetrics records) =
     (if 0 < ExecutedTrades (GetMetrics records)
      then fdiv (TotalReturn (GetMetrics records)) (float64 (ExecutedTrades (GetMetrics records)))
      else Fin 0)"
  "SharpeRatio (GetMetrics records) =
     (if 1 < length (executedProfits records) then calculateSharpeRatio (executedProfits records)
      else Fin 0)"
  "MaxDrawdown (GetMetrics records) = calculateMaxDrawdown (executedProfits records)"
proof -
  let ?init = "\<lparr> TotalRecommendations = int (length records), ExecutedTrades = 0,
                 WinningTrades = 0, LosingTrades = 0, WinRate = Fin 0,
                 AverageReturn = Fin 0, TotalReturn = Fin 0, SharpeRatio = Fin 0,
                 MaxDrawdown = Fin 0, ByStrategy = [] \<rparr>"
  obtain m rs where cr: "countRecords records (?init, []) = (m, rs)"
    by (cases "countRecords records (?init, [])")
  note u = GetMetrics_unfold [OF cr]
  have rs: "rs = executedProfits records"
    using countRecords_returns [of records "(?init, [])"] cr by simp
  have e: "ExecutedTrades m = int (length (filter Executed records))"
    using countRecords_ExecutedTrades [of records "(?init, [])"] cr by simp
  have w: "WinningTrades m = int (length (filter (\<lambda>rec. Executed rec \<and> isWin rec) records))"
    using countRecords_WinningTrades [of records "(?init, [])"] cr by simp
  have l: "LosingTrades m = int (length (filter (\<lambda>rec. Executed rec \<and> isLoss rec) records))"
    using countRecords_LosingTrades [of records "(?init, [])"] cr by simp
  have t: "TotalReturn m = foldl fadd (Fin 0) (executedProfits records)"
    using countRecords_TotalReturn [of records "(?init, [])"] cr by simp
  have keep: "WinRate (fst (countRecords rs' s)) = WinRate (fst s) \<and>
              AverageReturn (fst (countRecords rs' s)) = AverageReturn (fst s) \<and>
              SharpeRatio (fst (countRecords rs' s)) = SharpeRatio (fst s)" for rs' s
    by (induction rs' arbitrary: s)
       (auto simp: countRecord_def Let_def split: prod.splits option.splits)
  have k: "WinRate m = Fin 0" "AverageReturn m = Fin 0" "SharpeRatio m = Fin 0"
    using keep [of records "(?init, [])"] cr by simp_all
  show "ExecutedTrades (GetMetrics records) = int (length (filter Executed records))"
    using u e by simp
  show "WinningTrades (GetMetrics records) =
     int (length (filter (\<lambda>rec. Executed rec \<and> isWin rec) records))"
    using u w by simp
  show "LosingTrades (GetMetrics records) =
     int (length (filter (\<lambda>rec. Executed rec \<and> isLoss rec) records))"
    using u l by simp
  show "TotalReturn (GetMetrics records) = foldl fadd (Fin 0) (executedProfits records)"
    using u t by simp
  show "WinRate (GetMetrics records) =
     (if 0 < ExecutedTrades (GetMetrics records)
      then fmul (fdiv (float64 (WinningTrades (GetMetrics records)))
                   (float64 (ExecutedTrades (GetMetrics records)))) (Fin 100)
      else Fin 0)"
    using u k by simp
  show "AverageReturn (GetMetrics records) =
     (if 0 < ExecutedTrades (GetMetrics records)
      then fdiv (TotalReturn (GetMetrics records)) (float64 (ExecutedTrades (GetMetrics records)))
      else Fin 0)"
    using u k by simp
  show "SharpeRatio (GetMetrics records) =
     (if 1 < length (executedProfits records) then calculateSharpeRatio (executedProfits records)
      else Fin 0)"
    using u k rs by simp
  show "MaxDrawdown (GetMetrics records) = calculateMaxDrawdown (executedProfits records)"
    using u rs by simp
qed

text \<open>
  C4 (as amended). For every list of loaded records, \<open>ExecutedTrades\<close> is the number of
  records marked executed, \<open>WinningTrades\<close> and \<open>LosingTrades\<close> are the numbers of records
  that are marked executed and have an actual profit above, respectively below, 0, and
  \<open>TotalReturn\<close> is the sum, in the order of the records, of the actual profits of the
  records marked executed (their exact sum when they are finite); and when
  \<open>ExecutedTrades\<close> is positive, \<open>WinRate\<close> is \<open>WinningTrades / ExecutedTrades * 100\<close> and
  \<open>AverageReturn\<close> is \<open>TotalReturn / ExecutedTrades\<close>.
\<close>

theorem GetMetrics_counts:
  "ExecutedTrades (GetMetrics records) = int (length (filter Executed records)) \<and>
   WinningTrades (GetMetrics records) =
     int (length (filter (\<lambda>rec. Executed rec \<and> isWin rec) records)) \<and>
   LosingTrades (GetMetrics records) =
     int (length (filter (\<lambda>rec. Executed rec \<and> isLoss rec) records)) \<and>
   TotalReturn (GetMetrics records) = foldl fadd (Fin 0) (executedProfits records) \<and>
   (executedProfits records = map Fin xs \<longrightarrow>
      TotalReturn (GetMetrics records) = Fin (sum_list xs)) \<and>
   (0 < ExecutedTrades (GetMetrics records) \<longrightarrow>
      WinRate (GetMetrics records) =
        Fin (real_of_int (WinningTrades (GetMetrics records))
             / real_of_int (ExecutedTrades (GetMetrics records)) * 100) \<and>
      AverageReturn (GetMetrics records) =
        fdiv (TotalReturn (GetMetrics records)) (float64 (ExecutedTrades (GetMetrics records))))"
proof (intro conjI impI)
  assume "executedProfits records = map Fin xs"
  then show "TotalReturn (GetMetrics records) = Fin (sum_list xs)"
    using foldl_fadd_Fin [of 0 xs] by (simp add: GetMetrics_fields(4))
next
  assume pos: "0 < ExecutedTrades (GetMetrics records)"
  then show "WinRate (GetMetrics records) =
        Fin (real_of_int (WinningTrades (GetMetrics records))
             / real_of_int (ExecutedTrades (GetMetrics records)) * 100)"
    using GetMetrics_fields(5) [of records] by (simp add: float64_def)
  show "AverageReturn (GetMetrics records) =
        fdiv (TotalReturn (GetMetrics records)) (float64 (ExecutedTrades (GetMetrics records)))"
    using pos GetMetrics_fields(6) [of records] by simp
qed (rule GetMetrics_fields)+

lemma exampleLedger_profits: "executedProfits exampleLedger = map Fin [50, - 20]"
  by (simp add: exampleLedger_def executedProfits_simps closedRecord_def exampleRecord_def)

theorem GetMetrics_counts_witness:
  "executedProfits exampleLedger = map Fin [50, - 20] \<and>
   0 < ExecutedTrades (GetMetrics exampleLedger) \<and>
   ExecutedTrades (GetMetrics exampleLedger) = 2 \<and>
   WinningTrades (GetMetrics exampleLedger) = 1 \<and>
   LosingTrades (GetMetrics exampleLedger) = 1 \<and>
   TotalReturn (GetMetrics exampleLedger) = Fin 30 \<and>
   WinRate (GetMetrics exampleLedger) = Fin 50 \<and>
   AverageReturn (GetMetrics exampleLedger) = Fin 15"
  using GetMetrics_counts [of exampleLedger "[50, - 20]"] exampleLedger_profits
  by (simp add: exampleLedger_def closedRecord_def exampleRecord_def isWin_def isLoss_def
      fgt_def float64_def)

text \<open>
  C4 as stated fails: a record closed by \<open>UpdateTradeResult\<close> without having been marked
  executed has status \<open>closed\<close> and a positive profit, and is counted neither as a win nor
  in the total return.
\<close>

theorem closed_unexecuted_not_counted:
  "UpdateTradeResult ''rec_1700000000_5'' (Fin 50) 1700000000000000009
     \<lparr> currentFile = Content [exampleRecord], writable = True \<rparr> =
     Inr \<lparr> currentFile = Content [closedRecord], writable = True \<rparr> \<and>
   Status closedRecord = ''closed'' \<and> ActualProfit closedRecord = Some (Fin 50) \<and>
   fgt (Fin 50) (Fin 0) \<and> \<not> Executed closedRecord \<and>
   WinningTrades (GetMetrics [closedRecord]) = 0 \<and>
   TotalReturn (GetMetrics [closedRecord]) = Fin 0"
  by (simp add: GetMetrics_fields executedProfits_simps closedRecord_def exampleRecord_def
      UpdateTradeResult_def loadRecords_def saveRecords_def exampleCandidate_encodable fgt_def
      jsonRecord_literal example_text_valid exampleCandidate_valid)

lemma drawdownLoop_snoc: "drawdownLoop (rs @ [r]) s = drawdownStep (drawdownLoop rs s) r"
  by (induction rs arbitrary: s) simp_all

lemma specCumulative_snoc_le: "k \<le> length rs \<Longrightarrow> specCumulative (rs @ [r]) k = specCumulative rs k"
  by (simp add: specCumulative_def)

lemma specCumulative_snoc_last:
  "specCumulative (rs @ [r]) (Suc (length rs)) = fadd (specCumulative rs (length rs)) r"
  by (simp add: specCumulative_def)

lemma runningMax_snoc:
  "runningMax (xs @ [x]) = (if fgt x (runningMax xs) then x else runningMax xs)"
  by (simp add: runningMax_def)

lemma upt_one_Suc: "[1..<Suc (Suc k)] = [1..<Suc k] @ [Suc k]"
  by simp

lemma specPeak_snoc_le: "k \<le> length rs \<Longrightarrow> specPeak (rs @ [r]) k = specPeak rs k"
proof -
  assume k: "k \<le> length rs"
  have eq: "map (specCumulative (rs @ [r])) [1..<Suc k] = map (specCumulative rs) [1..<Suc k]"
  proof (rule map_cong [OF refl])
    fix x assume "x \<in> set [1..<Suc k]"
    then have "x \<le> length rs" using k by auto
    then show "specCumulative (rs @ [r]) x = specCumulative rs x"
      by (rule specCumulative_snoc_le)
  qed
  show ?thesis unfolding specPeak_def eq ..
qed

lemma specPeak_Suc:
  "specPeak rs (Suc k) =
     (if fgt (specCumulative rs (Suc k)) (specPeak rs k) then specCumulative rs (Suc k)
      else specPeak rs k)"
  by (simp only: specPeak_def upt_one_Suc map_append list.map runningMax_snoc)

lemma specDrawdown_snoc_le: "k \<le> length rs \<Longrightarrow> specDrawdown (rs @ [r]) k = specDrawdown rs k"
  by (simp add: specDrawdown_def specPeak_snoc_le specCumulative_snoc_le)

lemma drawdowns_snoc:
  "map (specDrawdown (rs @ [r])) [1..<Suc (length rs)] = map (specDrawdown rs) [1..<Suc (length rs)]"
proof (rule map_cong [OF refl])
  fix x assume "x \<in> set [1..<Suc (length rs)]"
  then have "x \<le> length rs" by auto
  then show "specDrawdown (rs @ [r]) x = specDrawdown rs x"
    by (rule specDrawdown_snoc_le)
qed

lemma drawdownLoop_spec:
  "drawdownLoop rs (Fin 0, Fin 0, Fin 0) =
     (specCumulative rs (length rs), specPeak rs (length rs),
      runningMax (map (specDrawdown rs) [1..<Suc (length rs)]))"
proof (induction rs rule: rev_induct)
  case Nil
  show ?case by (simp add: specCumulative_def specPeak_def runningMax_def)
next
  case (snoc r rs)
  let ?c = "fadd (specCumulative rs (length rs)) r"
  let ?p = "if fgt ?c (specPeak rs (length rs)) then ?c else specPeak rs (length rs)"
  have c: "specCumulative (rs @ [r]) (Suc (length rs)) = ?c"
    by (rule specCumulative_snoc_last)
  have p: "specPeak (rs @ [r]) (Suc (length rs)) = ?p"
    by (simp only: specPeak_Suc c specPeak_snoc_le [OF order_refl])
  have d: "specDrawdown (rs @ [r]) (Suc (length rs)) = fdiv (fsub ?p ?c) ?p"
    unfolding specDrawdown_def c p ..
  have m: "runningMax (map (specDrawdown (rs @ [r])) [1..<Suc (Suc (length rs))]) =
      (if fgt (fdiv (fsub ?p ?c) ?p) (runningMax (map (specDrawdown rs) [1..<Suc (length rs)]))
       then fdiv (fsub ?p ?c) ?p
       else runningMax (map (specDrawdown rs) [1..<Suc (length rs)]))"
    by (simp only: upt_one_Suc map_append list.map runningMax_snoc drawdowns_snoc d)
  show ?case
    unfolding drawdownLoop_snoc snoc.IH
    by (simp only: drawdownStep_def Let_def prod.case length_append_singleton c p m)
qed

lemma calculateMaxDrawdown_spec: "calculateMaxDrawdown rs = specMaxDrawdown rs"
proof (cases "rs = []")
  case True
  then show ?thesis by (simp add: calculateMaxDrawdown_def specMaxDrawdown_def runningMax_def)
next
  case False
  then show ?thesis
    by (simp add: calculateMaxDrawdown_def specMaxDrawdown_def drawdownLoop_spec)
qed

text \<open>Rounding to binary64: powers of two, the binary exponent, and the rounded value of a
  number of known binary exponent.\<close>

lemma pow2_powr: "pow2 e = 2 powr (real_of_int e)"
proof (cases "0 \<le> e")
  case True
  have "(2::real) powr (real (nat e)) = 2 ^ nat e" by (rule powr_realpow) simp
  moreover have "real (nat e) = real_of_int e" using True by simp
  ultimately have "(2::real) powr (real_of_int e) = 2 ^ nat e" by simp
  then show ?thesis using True by (simp add: pow2_def)
next
  case False
  have "(2::real) powr (real (nat (- e))) = 2 ^ nat (- e)" by (rule powr_realpow) simp
  moreover have "real (nat (- e)) = - real_of_int e" using False by simp
  ultimately have "(2::real) powr (- real_of_int e) = 2 ^ nat (- e)" by simp
  then have "(2::real) powr (real_of_int e) = 1 / 2 ^ nat (- e)"
    by (metis powr_minus_divide minus_minus)
  then show ?thesis using False by (simp add: pow2_def)
qed

lemma pow2_pos: "0 < pow2 e"
  by (simp add: pow2_powr)

lemma pow2_add: "pow2 (a + b) = pow2 a * pow2 b"
  by (simp add: pow2_powr powr_add)

lemma pow2_mono: "a \<le> b \<Longrightarrow> pow2 a \<le> pow2 b"
  by (simp add: pow2_powr)

lemma pow2_strict_mono: "a < b \<Longrightarrow> pow2 a < pow2 b"
  by (simp add: pow2_powr)

lemma log_pow2: "log 2 (pow2 e) = real_of_int e"
  by (simp add: pow2_powr)

lemma floor_log_binade:
  assumes "pow2 e \<le> x" and "x < pow2 (e + 1)"
  shows "\<lfloor>log 2 x\<rfloor> = e"
proof -
  have x: "0 < x" using assms(1) pow2_pos [of e] by linarith
  have "log 2 (pow2 e) \<le> log 2 x" using assms(1) pow2_pos [of e] x by simp
  then have lo: "real_of_int e \<le> log 2 x" by (simp add: log_pow2)
  have "log 2 x < log 2 (pow2 (e + 1))" using assms(2) x by simp
  then have hi: "log 2 x < real_of_int e + 1" by (simp add: log_pow2)
  show ?thesis using lo hi by linarith
qed

lemma binade_of:
  assumes "0 < x"
  shows "pow2 \<lfloor>log 2 x\<rfloor> \<le> x \<and> x < pow2 (\<lfloor>log 2 x\<rfloor> + 1)"
proof -
  have "2 powr (real_of_int \<lfloor>log 2 x\<rfloor>) \<le> 2 powr (log 2 x)"
    by (simp add: powr_mono)
  moreover have "log 2 x < real_of_int (\<lfloor>log 2 x\<rfloor> + 1)" by linarith
  then have "2 powr (log 2 x) < 2 powr (real_of_int (\<lfloor>log 2 x\<rfloor> + 1))"
    by (rule powr_less_mono) simp
  moreover have "2 powr (log 2 x) = x" using assms by simp
  ultimately show ?thesis by (simp add: pow2_powr)
qed

lemma roundEven_bounds: "\<lfloor>y\<rfloor> \<le> roundEven y \<and> roundEven y \<le> \<lfloor>y\<rfloor> + 1"
  by (simp add: roundEven_def Let_def)

lemma roundEven_int: "roundEven (of_int n) = n"
  by (simp add: roundEven_def)


lemma exponent_eq:
  assumes "pow2 e \<le> \<bar>x\<bar>" and "\<bar>x\<bar> < pow2 (e + 1)" and "- 1022 \<le> e"
  shows "exponent x = e"
  using floor_log_binade [OF assms(1,2)] assms(3) by (simp add: exponent_def)

lemma pow2_52: "pow2 52 = real_of_int 4503599627370496"
  by (simp add: pow2_def)

lemma pow2_53: "pow2 53 = real_of_int 9007199254740992"
  by (simp add: pow2_def)

lemma pow2_split_52: "pow2 e = pow2 52 * pow2 (e - 52)"
proof -
  have "52 + (e - 52) = e" by simp
  then show ?thesis by (metis pow2_add)
qed

lemma pow2_split_53: "pow2 (e + 1) = pow2 53 * pow2 (e - 52)"
proof -
  have "53 + (e - 52) = e + 1" by simp
  then show ?thesis by (metis pow2_add)
qed

lemma round64_eval:
  assumes "pow2 e \<le> \<bar>x\<bar>" and "\<bar>x\<bar> < pow2 (e + 1)" and "- 1022 \<le> e" and "e \<le> 1022"
  shows "round64 x = Fin (of_int (roundEven (x / pow2 (e - 52))) * pow2 (e - 52))"
proof -
  let ?u = "pow2 (e - 52)"
  let ?y = "x / ?u"
  let ?m = "roundEven ?y"
  have u: "0 < ?u" by (rule pow2_pos)
  have x0: "x \<noteq> 0" using assms(1) pow2_pos [of e] by auto
  have ex: "exponent x = e" using exponent_eq [OF assms(1,2,3)] .
  have "\<bar>?y\<bar> = \<bar>x\<bar> / ?u" using u by (simp add: abs_divide)
  also have "\<dots> < pow2 (e + 1) / ?u" using assms(2) u by (simp add: divide_strict_right_mono)
  also have "\<dots> = pow2 53" using u by (simp add: pow2_split_53)
  finally have y: "\<bar>?y\<bar> < real_of_int 9007199254740992" by (simp add: pow2_53)
  then have "?y < real_of_int 9007199254740992" and "- real_of_int 9007199254740992 < ?y"
    by linarith+
  then have "\<lfloor>?y\<rfloor> < 9007199254740992" and "- 9007199254740992 \<le> \<lfloor>?y\<rfloor>"
    by (simp_all add: floor_less_iff le_floor_iff)
  then have "- 9007199254740992 \<le> ?m" and "?m \<le> 9007199254740992"
    using roundEven_bounds [of ?y] by linarith+
  then have "\<bar>real_of_int ?m\<bar> \<le> real_of_int 9007199254740992" by linarith
  then have "\<bar>real_of_int ?m * ?u\<bar> \<le> pow2 53 * ?u"
    using u by (simp add: abs_mult pow2_53 mult_right_mono)
  also have "\<dots> = pow2 (e + 1)" by (simp add: pow2_split_53)
  also have "\<dots> < pow2 1024" using assms(4) by (intro pow2_strict_mono) simp
  finally have "\<not> pow2 1024 \<le> \<bar>real_of_int ?m * ?u\<bar>" by simp
  then show ?thesis using x0 by (simp add: round64_def ex Let_def)
qed

lemma round64_binade:
  assumes "pow2 e \<le> x" and "x < pow2 (e + 1)" and "- 1022 \<le> e" and "e \<le> 1022"
  shows "\<exists>r. round64 x = Fin r \<and> pow2 e \<le> r \<and> r \<le> pow2 (e + 1)"
proof -
  let ?u = "pow2 (e - 52)"
  let ?y = "x / ?u"
  let ?m = "roundEven ?y"
  have u: "0 < ?u" by (rule pow2_pos)
  have x: "0 < x" using assms(1) pow2_pos [of e] by linarith
  have ev: "round64 x = Fin (real_of_int ?m * ?u)"
    using round64_eval [of e x] assms x by simp
  have "pow2 52 = pow2 e / ?u" using u by (simp add: pow2_split_52 [of e])
  also have "\<dots> \<le> ?y" using assms(1) u by (simp add: divide_right_mono)
  finally have "real_of_int 4503599627370496 \<le> ?y" by (simp add: pow2_52)
  then have "4503599627370496 \<le> \<lfloor>?y\<rfloor>" by (simp add: le_floor_iff)
  then have "4503599627370496 \<le> ?m" using roundEven_bounds [of ?y] by linarith
  then have "real_of_int 4503599627370496 \<le> real_of_int ?m" by linarith
  then have "pow2 52 * ?u \<le> real_of_int ?m * ?u"
    using u by (simp add: pow2_52 mult_right_mono)
  then have lo: "pow2 e \<le> real_of_int ?m * ?u" by (simp add: pow2_split_52 [of e])
  have "?y < pow2 (e + 1) / ?u" using assms(2) u by (simp add: divide_strict_right_mono)
  also have "\<dots> = pow2 53" using u by (simp add: pow2_split_53)
  finally have "?y < real_of_int 9007199254740992" by (simp add: pow2_53)
  then have "\<lfloor>?y\<rfloor> < 9007199254740992" by (simp add: floor_less_iff)
  then have "?m \<le> 9007199254740992" using roundEven_bounds [of ?y] by linarith
  then have "real_of_int ?m \<le> real_of_int 9007199254740992" by linarith
  then have "real_of_int ?m * ?u \<le> pow2 53 * ?u"
    using u by (simp add: pow2_53 mult_right_mono)
  then have hi: "real_of_int ?m * ?u \<le> pow2 (e + 1)" by (simp add: pow2_split_53)
  show ?thesis using ev lo hi by blast
qed

lemma pow2_less_cancel: "pow2 a < pow2 b \<Longrightarrow> a < b"
  using pow2_mono [of b a] by (cases "a < b") auto

lemma round64_between:
  assumes "pow2 a \<le> x" and "x < pow2 b" and "- 1022 \<le> a" and "b \<le> 1023"
  shows "\<exists>r. round64 x = Fin r \<and> pow2 a \<le> r \<and> r \<le> pow2 b"
proof -
  let ?e = "\<lfloor>log 2 x\<rfloor>"
  have x: "0 < x" using assms(1) pow2_pos [of a] by linarith
  from binade_of [OF x] have b: "pow2 ?e \<le> x" "x < pow2 (?e + 1)" by simp_all
  have "pow2 a < pow2 (?e + 1)" using assms(1) b(2) by linarith
  then have ae: "a \<le> ?e" using pow2_less_cancel [of a "?e + 1"] by simp
  have "pow2 ?e < pow2 b" using assms(2) b(1) by linarith
  then have eb: "?e + 1 \<le> b" using pow2_less_cancel [of ?e b] by simp
  have e1: "- 1022 \<le> ?e" using ae assms(3) by linarith
  have e2: "?e \<le> 1022" using eb assms(4) by linarith
  from round64_binade [OF b e1 e2]
  obtain r where r: "round64 x = Fin r" "pow2 ?e \<le> r" "r \<le> pow2 (?e + 1)" by blast
  have "pow2 a \<le> r" using r(2) pow2_mono [OF ae] by linarith
  moreover have "r \<le> pow2 b" using r(3) pow2_mono [OF eb] by linarith
  ultimately show ?thesis using r(1) by blast
qed

lemma tenth_nearest: "round64 (1 / 10) = Fin (3602879701896397 / 36028797018963968)"
  using round64_eval [of "- 4" "1 / 10"]
  by (simp add: fadd64_def pow2_def roundEven_def)

lemma sum_step1: "fadd64 (Fin 0) (Fin (3602879701896397 / 36028797018963968)) = Fin (3602879701896397 / 36028797018963968)"
  using round64_eval [of "- 4" "3602879701896397 / 36028797018963968"]
  by (simp add: fadd64_def pow2_def roundEven_def)

lemma sum_step2: "fadd64 (Fin (3602879701896397 / 36028797018963968)) (Fin (3602879701896397 / 36028797018963968)) = Fin (3602879701896397 / 18014398509481984)"
  using round64_eval [of "- 3" "3602879701896397 / 18014398509481984"]
  by (simp add: fadd64_def pow2_def roundEven_def)

lemma sum_step3: "fadd64 (Fin (3602879701896397 / 18014398509481984)) (Fin (3602879701896397 / 36028797018963968)) = Fin (1351079888211149 / 4503599627370496)"
  using round64_eval [of "- 2" "10808639105689191 / 36028797018963968"]
  by (simp add: fadd64_def pow2_def roundEven_def)

lemma rnd_3: "rnd (float64 3) = Fin (3)"
  using round64_eval [of "1" "3"]
  by (simp add: float64_def pow2_def roundEven_def)

lemma rnd_2: "rnd (float64 2) = Fin (2)"
  using round64_eval [of "1" "2"]
  by (simp add: float64_def pow2_def roundEven_def)

lemma avg_step: "fdiv64 (Fin (1351079888211149 / 4503599627370496)) (Fin 3) = Fin (7205759403792795 / 72057594037927936)"
  using round64_eval [of "- 4" "1351079888211149 / 13510798882111488"]
  by (simp add: fdiv64_def pow2_def roundEven_def)

lemma diff_step: "fsub64 (Fin (3602879701896397 / 36028797018963968)) (Fin (7205759403792795 / 72057594037927936)) = Fin (- (1 / 72057594037927936))"
  using round64_eval [of "- 56" "- (1 / 72057594037927936)"]
  by (simp add: fsub64_def fsub_def pow2_def roundEven_def)

lemma square_step: "fmul64 (Fin (- (1 / 72057594037927936))) (Fin (- (1 / 72057594037927936))) = Fin (1 / 5192296858534827628530496329220096)"
  using round64_eval [of "- 112" "1 / 5192296858534827628530496329220096"]
  by (simp add: fmul64_def pow2_def roundEven_def)

lemma var_step1: "fadd64 (Fin 0) (Fin (1 / 5192296858534827628530496329220096)) = Fin (1 / 5192296858534827628530496329220096)"
  using round64_eval [of "- 112" "1 / 5192296858534827628530496329220096"]
  by (simp add: fadd64_def pow2_def roundEven_def)

lemma var_step2: "fadd64 (Fin (1 / 5192296858534827628530496329220096)) (Fin (1 / 5192296858534827628530496329220096)) = Fin (1 / 2596148429267413814265248164610048)"
  using round64_eval [of "- 111" "1 / 2596148429267413814265248164610048"]
  by (simp add: fadd64_def pow2_def roundEven_def)

lemma var_step3: "fadd64 (Fin (1 / 2596148429267413814265248164610048)) (Fin (1 / 5192296858534827628530496329220096)) = Fin (3 / 5192296858534827628530496329220096)"
  using round64_eval [of "- 111" "3 / 5192296858534827628530496329220096"]
  by (simp add: fadd64_def pow2_def roundEven_def)

lemma var_half: "fdiv64 (Fin (3 / 5192296858534827628530496329220096)) (Fin 2) = Fin (3 / 10384593717069655257060992658440192)"
  using round64_eval [of "- 112" "3 / 10384593717069655257060992658440192"]
  by (simp add: fdiv64_def pow2_def roundEven_def)

lemma stdDev_bounds:
  "\<exists>s. fsqrt64 (Fin (3 / 10384593717069655257060992658440192)) = Fin s \<and>
       pow2 (- 56) \<le> s \<and> s \<le> pow2 (- 55)"
proof -
  let ?v = "3 / 10384593717069655257060992658440192 :: real"
  have "(pow2 (- 56))\<^sup>2 \<le> ?v" by (simp add: pow2_def power2_eq_square)
  then have lo: "pow2 (- 56) \<le> sqrt ?v" by (rule real_le_rsqrt)
  have "?v < (pow2 (- 55))\<^sup>2" by (simp add: pow2_def power2_eq_square)
  then have hi: "sqrt ?v < pow2 (- 56 + 1)"
    using real_less_lsqrt [of "pow2 (- 55)" ?v] pow2_pos [of "- 55"] by simp
  from round64_binade [OF lo hi] show ?thesis by (simp add: fsqrt64_def)
qed

lemma sqrt252_bounds:
  "\<exists>c. fsqrt64 (Fin 252) = Fin c \<and> pow2 3 \<le> c \<and> c \<le> pow2 4"
proof -
  have "(pow2 3)\<^sup>2 \<le> (252::real)" by (simp add: pow2_def power2_eq_square)
  then have lo: "pow2 3 \<le> sqrt 252" by (rule real_le_rsqrt)
  have "(252::real) < (pow2 4)\<^sup>2" by (simp add: pow2_def power2_eq_square)
  then have hi: "sqrt 252 < pow2 (3 + 1)"
    using real_less_lsqrt [of "pow2 4" 252] pow2_pos [of 4] by simp
  from round64_binade [OF lo hi] show ?thesis by (simp add: fsqrt64_def)
qed

lemma riskFreeRate_bounds:
  "\<exists>f. rnd (Fin ((5/100) / 252)) = Fin f \<and> pow2 (- 13) \<le> f \<and> f \<le> pow2 (- 12)"
proof -
  have lo: "pow2 (- 13) \<le> ((5/100) / 252 :: real)" by (simp add: pow2_def)
  have hi: "((5/100) / 252 :: real) < pow2 (- 13 + 1)" by (simp add: pow2_def)
  from round64_binade [OF lo hi] show ?thesis by simp
qed

lemma sharpe_tenths:
  "\<exists>r. calculateSharpeRatio
          [Fin (3602879701896397 / 36028797018963968),
           Fin (3602879701896397 / 36028797018963968),
           Fin (3602879701896397 / 36028797018963968)] = Fin r \<and> pow2 54 \<le> r"
proof -
  let ?d = "Fin (3602879701896397 / 36028797018963968)"
  let ?avg = "7205759403792795 / 72057594037927936 :: real"
  obtain s where s: "fsqrt64 (Fin (3 / 10384593717069655257060992658440192)) = Fin s"
    "pow2 (- 56) \<le> s" "s \<le> pow2 (- 55)"
    using stdDev_bounds by blast
  obtain f where f: "rnd (Fin ((5/100) / 252)) = Fin f" "pow2 (- 13) \<le> f" "f \<le> pow2 (- 12)"
    using riskFreeRate_bounds by blast
  obtain c where c: "fsqrt64 (Fin 252) = Fin c" "pow2 3 \<le> c" "c \<le> pow2 4"
    using sqrt252_bounds by blast
  have s0: "0 < s" using s(2) pow2_pos [of "- 56"] by linarith
  have c0: "0 < c" using c(2) pow2_pos [of 3] by linarith
  have "pow2 (- 4) \<le> ?avg - f" using f(3) by (simp add: pow2_def)
  moreover have "?avg - f < pow2 (- 4 + 1)" using f(2) by (simp add: pow2_def)
  ultimately obtain a where a: "round64 (?avg - f) = Fin a" "pow2 (- 4) \<le> a" "a \<le> pow2 (- 3)"
    using round64_binade [of "- 4" "?avg - f"] by auto
  have a0: "0 < a" using a(2) pow2_pos [of "- 4"] by linarith
  have num: "fsub64 (Fin ?avg) (Fin f) = Fin a"
    using a(1) by (simp add: fsub64_def fsub_def)
  have "pow2 51 = pow2 (- 4) / pow2 (- 55)" by (simp add: pow2_def)
  also have "\<dots> \<le> a / s" using a(2) s(3) s0 pow2_pos [of "- 4"] by (intro frac_le) simp_all
  finally have qlo: "pow2 51 \<le> a / s" .
  have "a / s \<le> pow2 (- 3) / pow2 (- 56)"
    using a(3) s(2) a0 pow2_pos [of "- 56"] by (intro frac_le) simp_all
  also have "\<dots> < pow2 54" by (simp add: pow2_def)
  finally have qhi: "a / s < pow2 54" .
  from round64_between [OF qlo qhi]
  obtain q where q: "round64 (a / s) = Fin q" "pow2 51 \<le> q" "q \<le> pow2 54" by auto
  have q0: "0 < q" using q(2) pow2_pos [of 51] by linarith
  have quo: "fdiv64 (Fin a) (Fin s) = Fin q"
    using q(1) s0 by (simp add: fdiv64_def)
  have "pow2 54 = pow2 51 * pow2 3" by (simp add: pow2_def)
  also have "\<dots> \<le> q * c" using q(2) c(2) pow2_pos [of 51] pow2_pos [of 3]
    by (intro mult_mono) simp_all
  finally have rlo: "pow2 54 \<le> q * c" .
  have "q * c \<le> pow2 54 * pow2 4" using q(3) c(3) q0 c0 by (intro mult_mono) simp_all
  also have "\<dots> < pow2 59" by (simp add: pow2_def)
  finally have rhi: "q * c < pow2 59" .
  from round64_between [OF rlo rhi]
  obtain r where r: "round64 (q * c) = Fin r" "pow2 54 \<le> r" by auto
  have prod: "fmul64 (Fin q) (Fin c) = Fin r"
    using r(1) by (simp add: fmul64_def)
  have "calculateSharpeRatio [?d, ?d, ?d] = Fin r"
    using s0
    by (simp add: calculateSharpeRatio_def Let_def sum_step1 sum_step2 sum_step3 rnd_3 rnd_2
        avg_step diff_step square_step var_step1 var_step2 var_step3 var_half
        s(1) f(1) [simplified] c(1) num quo prod feq_def)
  then show ?thesis using r(2) by blast
qed

lemma tens_step1: "fadd64 (Fin 0) (Fin 10) = Fin 10"
  using round64_eval [of "3" "10"]
  by (simp add: fadd64_def pow2_def roundEven_def)

lemma tens_step2: "fadd64 (Fin 10) (Fin 10) = Fin 20"
  using round64_eval [of "4" "20"]
  by (simp add: fadd64_def pow2_def roundEven_def)

lemma tens_step3: "fadd64 (Fin 20) (Fin 10) = Fin 30"
  using round64_eval [of "4" "30"]
  by (simp add: fadd64_def pow2_def roundEven_def)

lemma tens_avg: "fdiv64 (Fin 30) (Fin 3) = Fin 10"
  using round64_eval [of "3" "10"]
  by (simp add: fdiv64_def pow2_def roundEven_def)

lemma round64_0: "round64 0 = Fin 0"
  by (simp add: round64_def)

lemma zero_steps:
  "fsub64 (Fin 10) (Fin 10) = Fin 0"
  "fmul64 (Fin 0) (Fin 0) = Fin 0"
  "fadd64 (Fin 0) (Fin 0) = Fin 0"
  "fdiv64 (Fin 0) (Fin 2) = Fin 0"
  "fsqrt64 (Fin 0) = Fin 0"
  by (simp_all add: fsub64_def fsub_def fmul64_def fadd64_def fdiv64_def fsqrt64_def round64_0)

text \<open>On 10, 10, 10 every intermediate value is exact and the result is 0, as it is for
  fewer than two values.\<close>

lemma calculateSharpeRatio_tens: "calculateSharpeRatio [Fin 10, Fin 10, Fin 10] = Fin 0"
  by (simp add: calculateSharpeRatio_def Let_def tens_step1 tens_step2 tens_step3 tens_avg rnd_3
      rnd_2 zero_steps feq_def)

lemma calculateSharpeRatio_short: "length returns < 2 \<Longrightarrow> calculateSharpeRatio returns = Fin 0"
  by (simp add: calculateSharpeRatio_def)

lemma constantLedger_profits: "executedProfits constantLedger = [Fin 10, Fin 10, Fin 10]"
  by (simp add: constantLedger_def executedProfits_simps closedRecord_def numeral_3_eq_3)

lemma GetMetrics_SharpeRatio_tens: "SharpeRatio (GetMetrics constantLedger) = Fin 0"
  by (simp add: GetMetrics_fields(7) constantLedger_profits calculateSharpeRatio_tens)

lemma tenthLedger_profits:
  "executedProfits tenthLedger =
     [Fin (3602879701896397 / 36028797018963968), Fin (3602879701896397 / 36028797018963968),
      Fin (3602879701896397 / 36028797018963968)]"
  by (simp add: tenthLedger_def executedProfits_simps closedRecord_def numeral_3_eq_3)

text \<open>
  C5. \<open>calculateSharpeRatio\<close> returns 0 only when the standard deviation it computed in
  binary64 compares equal to 0. For three trades that each made 0.1 (the binary64
  nearest to 0.1) the sample standard deviation is 0 and the Sharpe ratio of the
  specification is 0, but the rounded sum 0.1 + 0.1 + 0.1 divided by 3 is not 0.1, the
  computed deviation is not 0, and the function, and with it \<open>GetMetrics\<close>, returns a
  number of at least \<open>2\<^sup>5\<^sup>4\<close>.
\<close>

theorem calculateSharpeRatio_constant_tenths:
  "round64 (1 / 10) = Fin (3602879701896397 / 36028797018963968) \<and>
   sampleStdDev [3602879701896397 / 36028797018963968, 3602879701896397 / 36028797018963968,
                 3602879701896397 / 36028797018963968] = 0 \<and>
   specSharpe [3602879701896397 / 36028797018963968, 3602879701896397 / 36028797018963968,
               3602879701896397 / 36028797018963968] = 0 \<and>
   fle (Fin 18014398509481984)
     (calculateSharpeRatio
        [Fin (3602879701896397 / 36028797018963968), Fin (3602879701896397 / 36028797018963968),
         Fin (3602879701896397 / 36028797018963968)]) \<and>
   calculateSharpeRatio
        [Fin (3602879701896397 / 36028797018963968), Fin (3602879701896397 / 36028797018963968),
         Fin (3602879701896397 / 36028797018963968)] \<noteq> Fin 0 \<and>
   SharpeRatio (GetMetrics tenthLedger) =
     calculateSharpeRatio
        [Fin (3602879701896397 / 36028797018963968), Fin (3602879701896397 / 36028797018963968),
         Fin (3602879701896397 / 36028797018963968)]"
proof -
  let ?x = "3602879701896397 / 36028797018963968 :: real"
  have sd: "sampleStdDev [?x, ?x, ?x] = 0"
    by (simp add: sampleStdDev_def sampleMean_def)
  have sp: "specSharpe [?x, ?x, ?x] = 0"
    using sd by (simp add: specSharpe_def)
  obtain r where r: "calculateSharpeRatio [Fin ?x, Fin ?x, Fin ?x] = Fin r" "pow2 54 \<le> r"
    using sharpe_tenths by blast
  have big: "18014398509481984 \<le> r" using r(2) by (simp add: pow2_def)
  have le: "fle (Fin 18014398509481984) (calculateSharpeRatio [Fin ?x, Fin ?x, Fin ?x])"
    using big by (auto simp: r(1) fle_def feq_def)
  have ne: "calculateSharpeRatio [Fin ?x, Fin ?x, Fin ?x] \<noteq> Fin 0"
    using big by (simp add: r(1))
  have gm: "SharpeRatio (GetMetrics tenthLedger) =
      calculateSharpeRatio [Fin ?x, Fin ?x, Fin ?x]"
    by (simp add: GetMetrics_fields(7) tenthLedger_profits)
  show ?thesis using tenth_nearest sd sp le ne gm by blast
qed

lemma drawdownLedger_profits:
  "executedProfits drawdownLedger = [Fin 100, Fin (- 50), Fin 30]"
  by (simp add: drawdownLedger_def executedProfits_simps closedRecord_def)

text \<open>
  C6. For every sequence of profit values, \<open>calculateMaxDrawdown\<close> returns, as a percentage,
  the largest over all steps of (peak - cumulative) / peak, where cumulative is the sum of
  the values up to the step and peak its running peak; \<open>GetMetrics\<close> reports that value
  for the profits it collects; and for 100, -50, 30 the cumulative sums are 100, 50, 80,
  the peaks 100, 100, 100, the drawdowns 0, 1/2, 1/5, and the result 50.
\<close>

theorem GetMetrics_MaxDrawdown:
  "calculateMaxDrawdown returns = specMaxDrawdown returns \<and>
   MaxDrawdown (GetMetrics records) = specMaxDrawdown (executedProfits records) \<and>
   map (specCumulative [Fin 100, Fin (- 50), Fin 30]) [1, 2, 3] = [Fin 100, Fin 50, Fin 80] \<and>
   map (specPeak [Fin 100, Fin (- 50), Fin 30]) [1, 2, 3] = [Fin 100, Fin 100, Fin 100] \<and>
   map (specDrawdown [Fin 100, Fin (- 50), Fin 30]) [1, 2, 3] = [Fin 0, Fin (1/2), Fin (1/5)] \<and>
   calculateMaxDrawdown [Fin 100, Fin (- 50), Fin 30] = Fin 50 \<and>
   MaxDrawdown (GetMetrics drawdownLedger) = Fin 50"
proof -
  have ex: "calculateMaxDrawdown [Fin 100, Fin (- 50), Fin 30] = Fin 50"
    by (simp add: calculateMaxDrawdown_def drawdownStep_def fgt_def fsub_def Let_def)
  let ?ex = "[Fin 100, Fin (- 50), Fin 30]"
  have c1: "specCumulative ?ex (Suc 0) = Fin 100"
    and c2: "specCumulative ?ex (Suc (Suc 0)) = Fin 50"
    and c3: "specCumulative ?ex (Suc (Suc (Suc 0))) = Fin 80"
    by (simp_all add: specCumulative_def)
  have p0: "specPeak ?ex 0 = Fin 0"
    by (simp add: specPeak_def runningMax_def)
  have p1: "specPeak ?ex (Suc 0) = Fin 100"
    using specPeak_Suc [of ?ex 0] by (simp add: p0 c1 fgt_def)
  have p2: "specPeak ?ex (Suc (Suc 0)) = Fin 100"
    using specPeak_Suc [of ?ex "Suc 0"] by (simp add: p1 c2 fgt_def)
  have p3: "specPeak ?ex (Suc (Suc (Suc 0))) = Fin 100"
    using specPeak_Suc [of ?ex "Suc (Suc 0)"] by (simp add: p2 c3 fgt_def)
  have c: "map (specCumulative ?ex) [1, 2, 3] = [Fin 100, Fin 50, Fin 80]"
    by (simp add: numeral_2_eq_2 numeral_3_eq_3 c1 c2 c3)
  have p: "map (specPeak ?ex) [1, 2, 3] = [Fin 100, Fin 100, Fin 100]"
    by (simp add: numeral_2_eq_2 numeral_3_eq_3 p1 p2 p3)
  have d: "map (specDrawdown ?ex) [1, 2, 3] = [Fin 0, Fin (1/2), Fin (1/5)]"
    by (simp add: numeral_2_eq_2 numeral_3_eq_3 specDrawdown_def p1 p2 p3 c1 c2 c3 fsub_def)
  show ?thesis
    using ex c p d
    by (simp add: calculateMaxDrawdown_spec GetMetrics_fields(8) drawdownLedger_profits
        del: list.map)
qed

theorem GetMetrics_MaxDrawdown_witness:
  "specMaxDrawdown [Fin (- 50), Fin 30] = PInf \<and>
   specMaxDrawdown (executedProfits drawdownLedger) = Fin 50"
proof -
  have a: "calculateMaxDrawdown [Fin (- 50), Fin 30] = PInf"
    by (simp add: calculateMaxDrawdown_def drawdownStep_def fgt_def fsub_def Let_def)
  from GetMetrics_MaxDrawdown [of "[Fin (- 50), Fin 30]" drawdownLedger]
  have "calculateMaxDrawdown [Fin (- 50), Fin 30] = specMaxDrawdown [Fin (- 50), Fin 30]"
    and "MaxDrawdown (GetMetrics drawdownLedger) = specMaxDrawdown (executedProfits drawdownLedger)"
    and "MaxDrawdown (GetMetrics drawdownLedger) = Fin 50"
    by blast+
  then show ?thesis using a by simp
qed

section \<open>Properties of the normalizer\<close>

lemma occursAt_single: "occursAt s [c] i \<Longrightarrow> c \<in> set s"
proof -
  assume "occursAt s [c] i"
  then have "take 1 (drop i s) = [c]" by (simp add: occursAt_def)
  then have "c \<in> set (take 1 (drop i s))" by simp
  then show ?thesis by (meson in_set_dropD in_set_takeD)
qed

lemma Index_absent: "c \<notin> set s \<Longrightarrow> Index s [c] = - 1"
proof -
  assume "c \<notin> set s"
  then have "filter (occursAt s [c]) [0..<Suc (length s)] = []"
    by (auto simp: filter_empty_conv dest: occursAt_single)
  then show ?thesis by (simp add: Index_def)
qed

lemma scenario_no_bracket: "Index scenarioText ''['' = - 1"
  by (rule Index_absent) (simp add: scenarioText_def)

lemma scenario_lines:
  "Split scenarioText (CHR 0x0A) =
     [''Ticker | Strategy | Legs | Thesis | 72%'', ''---'',
      ''SPY | Bull Put Spread | Sell 440P/Buy 435P | strong support | 72%'']"
  by (simp add: scenarioText_def)


lemma trim_examples:
  "TrimSpace ''Ticker | Strategy | Legs | Thesis | 72%'' = ''Ticker | Strategy | Legs | Thesis | 72%''"
  "TrimSpace ''---'' = ''---''"
  "TrimSpace ''SPY | Bull Put Spread | Sell 440P/Buy 435P | strong support | 72%'' =
     ''SPY | Bull Put Spread | Sell 440P/Buy 435P | strong support | 72%''"
  "TrimSpace ''SPY '' = ''SPY''"
  "TrimSpace '' Bull Put Spread '' = ''Bull Put Spread''"
  "TrimSpace '' Sell 440P/Buy 435P '' = ''Sell 440P/Buy 435P''"
  "TrimSpace '' strong support '' = ''strong support''"
  "TrimSpace '' 72'' = ''72''"
  by (simp_all add: TrimSpace_def TrimLeftSpace.simps TrimRightSpace.simps leadingSpace_def
      trailingSpace_def spaceRunes_def)

lemma row_parts:
  "Split ''SPY | Bull Put Spread | Sell 440P/Buy 435P | strong support | 72%'' (CHR ''|'') =
     [''SPY '', '' Bull Put Spread '', '' Sell 440P/Buy 435P '', '' strong support '', '' 72%'']"
  by simp

lemma scan_72: "Sscanf_f scan ''72'' = Some (Fin 72)"
  by (simp add: Sscanf_f_def plainDecimal_def isDigit_def digitsValue_def digitValue_def)

lemma contains_examples:
  "Contains ''Ticker | Strategy | Legs | Thesis | 72%'' ''Ticker''"
  "\<not> Contains ''---'' ''Ticker''"
  "Contains ''---'' ''---''"
  "\<not> Contains ''SPY | Bull Put Spread | Sell 440P/Buy 435P | strong support | 72%'' ''Ticker''"
  "\<not> Contains ''SPY | Bull Put Spread | Sell 440P/Buy 435P | strong support | 72%'' ''---''"
  by (simp_all add: Contains_def Index_def occursAt_def)


lemma scenario_row:
  "parseRow scan ''SPY | Bull Put Spread | Sell 440P/Buy 435P | strong support | 72%'' =
     Some \<lparr> Ticker = ''SPY'', Strategy = ''Bull Put Spread'', Legs = ''Sell 440P/Buy 435P'',
            Thesis = ''strong support'', POP = Fin (72/100), MaxLoss = Fin 0,
            MaxProfit = Fin 0, Score = Fin 0 \<rparr>"
  by (simp add: parseRow_def row_parts Let_def trim_examples TrimSuffix_def scan_72)

text \<open>
  C10. On the text of the scenario (the header line, the line \<open>---\<close> and the row for SPY,
  separated by newlines), whatever the JSON decoder and the library scanner do elsewhere,
  \<open>parseRecommendations\<close> succeeds and returns exactly one candidate, with ticker \<open>SPY\<close>
  and probability of profit 0.72.
\<close>

theorem parseRecommendations_scenario:
  "parseRecommendations unmarshal scan scenarioText =
     Inr [\<lparr> Ticker = ''SPY'', Strategy = ''Bull Put Spread'', Legs = ''Sell 440P/Buy 435P'',
            Thesis = ''strong support'', POP = Fin (72/100), MaxLoss = Fin 0,
            MaxProfit = Fin 0, Score = Fin 0 \<rparr>]"
  by (simp add: parseRecommendations_def scenario_no_bracket Let_def parseTableFormat_def
      scenario_lines trim_examples contains_examples scenario_row)

end
